theory Spec2Isabelle
  imports Main
begin

section \<open>JavaScript values\<close>

text \<open>
  The vacancy record, the capability's parsed replies and the field paths are plain
  JSON-shaped JavaScript values.  Numbers are kept as integers plus \<open>NaN\<close>: the code
  only tests numbers for truthiness and for \<open>isNaN\<close>.  An object is the list of its own
  properties in insertion order; a lookup takes the first entry of a key.  Every
  object has the prototype it was created with: a step of the code that would change
  a prototype, or whose result is a function or a prototype object, is \<open>Unmodelled\<close>.
  A string is its UTF-8 bytes; a surrogate code unit standing alone is the three bytes
  its code point would take.
\<close>

datatype jsval =
    JUndefined
  | JNull
  | JBool bool
  | JNum int
  | JNaN
  | JStr string
  | JArr "jsval list"
  | JObj "(string \<times> jsval) list"

datatype js_error = TypeError | SyntaxError | Error string

text \<open>
  What evaluating a piece of the code gives: a value, a thrown exception, or
  \<open>Unmodelled\<close> where the behaviour depends on something left out of the model: a
  member inherited from a built-in prototype, a write to \<open>__proto__\<close>, a named
  property hung on an array, the printing of a number from \<open>1e21\<close> on, or the
  numeric reading of a string or of an object.
\<close>

datatype 'a outcome = Returns 'a | Throws js_error | Unmodelled

fun then_do :: "'a outcome \<Rightarrow> ('a \<Rightarrow> 'b outcome) \<Rightarrow> 'b outcome" where
  "then_do (Returns x) f = f x"
| "then_do (Throws e) f = Throws e"
| "then_do Unmodelled f = Unmodelled"

text \<open>\<open>ToBoolean\<close>: what \<open>!v\<close>, \<open>v && ...\<close> and \<open>v ? ... : ...\<close> test.\<close>

fun truthy :: "jsval \<Rightarrow> bool" where
  "truthy JUndefined = False"
| "truthy JNull = False"
| "truthy (JBool b) = b"
| "truthy (JNum n) = (n \<noteq> 0)"
| "truthy JNaN = False"
| "truthy (JStr s) = (s \<noteq> [])"
| "truthy (JArr xs) = True"
| "truthy (JObj kvs) = True"

definition nullish :: "jsval \<Rightarrow> bool" where
  "nullish v = (v = JNull \<or> v = JUndefined)"

definition is_array :: "jsval \<Rightarrow> bool" where
  "is_array v = (case v of JArr xs \<Rightarrow> True | _ \<Rightarrow> False)"

text \<open>Decimal digits of a natural number, as \<open>String(n)\<close> prints an array index.\<close>

definition digit_char :: "nat \<Rightarrow> char" where
  "digit_char d = ''0123456789'' ! d"

fun digits :: "nat \<Rightarrow> string" where
  "digits n = (if n < 10 then [digit_char n] else digits (n div 10) @ [digit_char (n mod 10)])"

declare digits.simps [simp del]

definition int_string :: "int \<Rightarrow> string" where
  "int_string i = (if i < 0 then CHR ''-'' # digits (nat (- i)) else digits (nat i))"

text \<open>
  \<open>xs.join(sep)\<close> on elements that are printed one after the other; the first one
  whose printing throws ends the join.
\<close>

fun join_outcomes :: "string \<Rightarrow> string outcome list \<Rightarrow> string outcome" where
  "join_outcomes sep [] = Returns []"
| "join_outcomes sep [x] = x"
| "join_outcomes sep (x # y # ys) =
     then_do x (\<lambda>a. then_do (join_outcomes sep (y # ys)) (\<lambda>b. Returns (a @ sep @ b)))"

text \<open>
  \<open>String(v)\<close>, which is also what a template literal does to an interpolated value.
  An array prints its elements separated by commas, \<open>null\<close> and \<open>undefined\<close> elements
  as the empty string.  A plain object prints as \<open>[object Object]\<close> through the
  inherited \<open>toString\<close>; with an own property \<open>toString\<close>, which in a JSON-shaped value
  is never callable, the conversion finds no primitive and throws a TypeError.
\<close>

fun String_js :: "jsval \<Rightarrow> string outcome" where
  "String_js JUndefined = Returns ''undefined''"
| "String_js JNull = Returns ''null''"
| "String_js (JBool b) = Returns (if b then ''true'' else ''false'')"
| "String_js (JNum n) =
     (if \<bar>n\<bar> < 1000000000000000000000 then Returns (int_string n) else Unmodelled)"
| "String_js JNaN = Returns ''NaN''"
| "String_js (JStr s) = Returns s"
| "String_js (JArr xs) =
     join_outcomes '','' (map (\<lambda>v. if v = JNull \<or> v = JUndefined then Returns [] else String_js v) xs)"
| "String_js (JObj kvs) =
     (if map_of kvs ''toString'' \<noteq> None then Throws TypeError else Returns ''[object Object]'')"

text \<open>\<open>s.split('.')\<close>: the empty string splits into one empty segment.\<close>

fun split_dot :: "string \<Rightarrow> string list" where
  "split_dot [] = [[]]"
| "split_dot (c # cs) =
     (if c = CHR ''.'' then [] # split_dot cs
      else (case split_dot cs of [] \<Rightarrow> [[c]] | w # ws \<Rightarrow> (c # w) # ws))"

text \<open>
  The names of the members of the built-in prototypes, through ECMAScript 2025 and
  with the additions of its Annex B.  A read of such a name that finds no own property
  finds the inherited member, a function or a prototype object.
\<close>

definition object_proto_names :: "string list" where
  "object_proto_names =
     [''constructor'', ''__defineGetter__'', ''__defineSetter__'', ''hasOwnProperty'',
      ''__lookupGetter__'', ''__lookupSetter__'', ''isPrototypeOf'', ''propertyIsEnumerable'',
      ''toString'', ''valueOf'', ''__proto__'', ''toLocaleString'']"

definition array_proto_names :: "string list" where
  "array_proto_names =
     [''at'', ''concat'', ''copyWithin'', ''fill'', ''find'', ''findIndex'', ''findLast'',
      ''findLastIndex'', ''lastIndexOf'', ''pop'', ''push'', ''reverse'', ''shift'',
      ''unshift'', ''slice'', ''sort'', ''splice'', ''includes'', ''indexOf'', ''join'',
      ''keys'', ''entries'', ''values'', ''forEach'', ''filter'', ''flat'', ''flatMap'',
      ''map'', ''every'', ''some'', ''reduce'', ''reduceRight'', ''toReversed'', ''toSorted'',
      ''toSpliced'', ''with'']"

definition string_proto_names :: "string list" where
  "string_proto_names =
     [''anchor'', ''at'', ''big'', ''blink'', ''bold'', ''charAt'', ''charCodeAt'',
      ''codePointAt'', ''concat'', ''endsWith'', ''fontcolor'', ''fontsize'', ''fixed'',
      ''includes'', ''indexOf'', ''isWellFormed'', ''italics'', ''lastIndexOf'', ''link'',
      ''localeCompare'', ''match'', ''matchAll'', ''normalize'', ''padEnd'', ''padStart'',
      ''repeat'', ''replace'', ''replaceAll'', ''search'', ''slice'', ''small'', ''split'',
      ''strike'', ''sub'', ''substr'', ''substring'', ''sup'', ''startsWith'',
      ''toWellFormed'', ''trim'', ''trimStart'', ''trimLeft'', ''trimEnd'', ''trimRight'',
      ''toLocaleLowerCase'', ''toLocaleUpperCase'', ''toLowerCase'', ''toUpperCase'']"

definition number_proto_names :: "string list" where
  "number_proto_names = [''toExponential'', ''toFixed'', ''toPrecision'']"

definition builtin_names :: "string list" where
  "builtin_names =
     object_proto_names @ array_proto_names @ string_proto_names @ number_proto_names"

text \<open>\<open>undefined\<close> for a name no prototype of the value defines.\<close>

definition not_own :: "string list \<Rightarrow> string \<Rightarrow> jsval outcome" where
  "not_own inherited k = (if k \<in> set inherited then Unmodelled else Returns JUndefined)"

text \<open>The position an array-index key names, among the first \<open>n\<close> positions.\<close>

definition index_of_key :: "string \<Rightarrow> nat \<Rightarrow> nat option" where
  "index_of_key k n = List.find (\<lambda>i. digits i = k) [0..<n]"

text \<open>
  The UTF-16 code units of a string, which are what \<open>length\<close> counts and an index
  selects, each as a string of its own.  A character of up to three bytes is one
  unit; a character of four bytes is a pair of surrogates.
\<close>

definition surrogate :: "nat \<Rightarrow> string" where
  "surrogate u =
     [char_of (224 + u div 4096), char_of (128 + (u div 64) mod 64), char_of (128 + u mod 64)]"

definition surrogates :: "char \<Rightarrow> char \<Rightarrow> char \<Rightarrow> char \<Rightarrow> string list" where
  "surrogates a b c d =
     (let cp = (of_char a - 240) * 262144 + (of_char b - 128) * 4096
               + (of_char c - 128) * 64 + (of_char d - (128::nat));
          v = cp - 65536
      in [surrogate (55296 + v div 1024), surrogate (56320 + v mod 1024)])"

fun utf16_units :: "string \<Rightarrow> string list" where
  "utf16_units (a # b # c # d # cs) =
     (if (240::nat) \<le> of_char a then surrogates a b c d @ utf16_units cs
      else if (224::nat) \<le> of_char a then [a, b, c] # utf16_units (d # cs)
      else if (192::nat) \<le> of_char a then [a, b] # utf16_units (c # d # cs)
      else [a] # utf16_units (b # c # d # cs))"
| "utf16_units [a, b, c] =
     (if (224::nat) \<le> of_char a then [[a, b, c]]
      else if (192::nat) \<le> of_char a then [[a, b], [c]]
      else [a] # utf16_units [b, c])"
| "utf16_units [a, b] = (if (192::nat) \<le> of_char a then [[a, b]] else [[a], [b]])"
| "utf16_units [a] = [[a]]"
| "utf16_units [] = []"

text \<open>
  The property read \<open>v[k]\<close>.  On \<open>null\<close> and \<open>undefined\<close> it throws a TypeError.  On
  every other value it returns the own property if there is one: an entry of an
  object, the length or an element of an array, the length or a character of a
  string.  Otherwise the prototypes are searched.
\<close>

fun get_prop :: "jsval \<Rightarrow> string \<Rightarrow> jsval outcome" where
  "get_prop JUndefined k = Throws TypeError"
| "get_prop JNull k = Throws TypeError"
| "get_prop (JObj kvs) k =
     (case map_of kvs k of Some v \<Rightarrow> Returns v | None \<Rightarrow> not_own object_proto_names k)"
| "get_prop (JArr xs) k =
     (if k = ''length'' then Returns (JNum (int (length xs)))
      else (case index_of_key k (length xs) of
              Some i \<Rightarrow> Returns (xs ! i)
            | None \<Rightarrow> not_own (array_proto_names @ object_proto_names) k))"
| "get_prop (JStr s) k =
     (if k = ''length'' then Returns (JNum (int (length (utf16_units s))))
      else (case index_of_key k (length (utf16_units s)) of
              Some i \<Rightarrow> Returns (JStr (utf16_units s ! i))
            | None \<Rightarrow> not_own (string_proto_names @ object_proto_names) k))"
| "get_prop (JBool b) k = not_own object_proto_names k"
| "get_prop (JNum n) k = not_own (number_proto_names @ object_proto_names) k"
| "get_prop JNaN k = not_own (number_proto_names @ object_proto_names) k"

section \<open>getValueByPath\<close>

text \<open>
  The callback of the \<open>reduce\<close>:
  \<^verbatim>\<open>(acc, part) => (acc && acc[part] !== undefined) ? acc[part] : undefined\<close>.
  The property is read only when \<open>acc\<close> is truthy.
\<close>

definition path_step :: "jsval \<Rightarrow> string \<Rightarrow> jsval outcome" where
  "path_step acc part =
     (if truthy acc then
        then_do (get_prop acc part)
          (\<lambda>v. if v \<noteq> JUndefined then get_prop acc part else Returns JUndefined)
      else Returns JUndefined)"

text \<open>\<open>pathArray.reduce(callback, obj)\<close>; a throwing callback ends the reduction.\<close>

fun reduce_path :: "jsval \<Rightarrow> string list \<Rightarrow> jsval outcome" where
  "reduce_path acc [] = Returns acc"
| "reduce_path acc (p # ps) =
     then_do (path_step acc p) (\<lambda>acc'. reduce_path acc' ps)"

definition getValueByPath :: "jsval \<Rightarrow> jsval \<Rightarrow> jsval outcome" where
  "getValueByPath obj path =
     (if \<not> truthy path \<or> \<not> truthy obj then Returns JUndefined
      else then_do (String_js path) (\<lambda>pathString. reduce_path obj (split_dot pathString)))"

text \<open>
  What it means for a dotted path to be present in a value, read off plain property
  access \<open>obj[p1][p2]...\<close>: every segment in turn names a property whose value is not
  \<open>undefined\<close>.
\<close>

fun path_present :: "jsval \<Rightarrow> string list \<Rightarrow> bool" where
  "path_present v [] = True"
| "path_present v (p # ps) =
     (case get_prop v p of
        Returns w \<Rightarrow> w \<noteq> JUndefined \<and> path_present w ps
      | Throws e \<Rightarrow> False
      | Unmodelled \<Rightarrow> False)"

text \<open>
  A path none of whose segments is the name of a member of a built-in prototype, as
  every field path of the schemas is.
\<close>

definition plain_key :: "string \<Rightarrow> bool" where
  "plain_key k = (k \<notin> set builtin_names)"

definition plain_path :: "string \<Rightarrow> bool" where
  "plain_path p = list_all plain_key (split_dot p)"

section \<open>Strings and objects\<close>

text \<open>
  The case folding of a regular expression with the flag \<open>i\<close> and without the flag
  \<open>u\<close>: a character outside ASCII never matches an ASCII letter, so folding \<open>A\<close>..\<open>Z\<close>
  is all there is for the ASCII words the patterns hold.
\<close>

definition lower_char :: "char \<Rightarrow> char" where
  "lower_char c =
     (case map_of (zip ''ABCDEFGHIJKLMNOPQRSTUVWXYZ'' ''abcdefghijklmnopqrstuvwxyz'') c of
        None \<Rightarrow> c | Some d \<Rightarrow> d)"

definition fold_case :: "string \<Rightarrow> string" where
  "fold_case s = map lower_char s"

text \<open>
  \<open>s.toLowerCase()\<close>, as far as ASCII letters can come of it: \<open>A\<close>..\<open>Z\<close>, the Kelvin
  sign (U+212A, lower case \<open>k\<close>) and the dotted capital I (U+0130, lower case \<open>i\<close>
  followed by U+0307).  Every other character outside ASCII is left as it is: its
  lower-case form is outside ASCII again, and the code only searches the lower-cased
  text for ASCII words.
\<close>

fun toLowerCase :: "string \<Rightarrow> string" where
  "toLowerCase (a # b # c # cs) =
     (if a = CHR 0xE2 \<and> b = CHR 0x84 \<and> c = CHR 0xAA then CHR ''k'' # toLowerCase cs
      else if a = CHR 0xC4 \<and> b = CHR 0xB0
      then CHR ''i'' # CHR 0xCC # CHR 0x87 # toLowerCase (c # cs)
      else lower_char a # toLowerCase (b # c # cs))"
| "toLowerCase [a, b] =
     (if a = CHR 0xC4 \<and> b = CHR 0xB0 then [CHR ''i'', CHR 0xCC, CHR 0x87]
      else [lower_char a, lower_char b])"
| "toLowerCase [a] = [lower_char a]"
| "toLowerCase [] = []"

text \<open>\<open>s.includes(sub)\<close>: \<open>sub\<close> occurs somewhere in \<open>s\<close>.\<close>

fun str_includes :: "string \<Rightarrow> string \<Rightarrow> bool" where
  "str_includes [] sub = (sub = [])"
| "str_includes (c # cs) sub = (take (length sub) (c # cs) = sub \<or> str_includes cs sub)"

text \<open>
  The white space and the line terminators \<open>trim\<close> strips, in UTF-8: tab, line feed,
  vertical tab, form feed, carriage return, space, U+00A0, U+1680, U+2000 to U+200A,
  U+2028, U+2029, U+202F, U+205F, U+3000 and U+FEFF.
\<close>

definition ws_tokens :: "string list" where
  "ws_tokens =
     [[CHR 0x09], [CHR 0x0A], [CHR 0x0B], [CHR 0x0C], [CHR 0x0D], [CHR 0x20],
      [CHR 0xC2, CHR 0xA0], [CHR 0xE1, CHR 0x9A, CHR 0x80]]
     @ map (\<lambda>c. [CHR 0xE2, CHR 0x80, c])
         [CHR 0x80, CHR 0x81, CHR 0x82, CHR 0x83, CHR 0x84, CHR 0x85, CHR 0x86, CHR 0x87,
          CHR 0x88, CHR 0x89, CHR 0x8A, CHR 0xA8, CHR 0xA9, CHR 0xAF]
     @ [[CHR 0xE2, CHR 0x81, CHR 0x9F], [CHR 0xE3, CHR 0x80, CHR 0x80],
        [CHR 0xEF, CHR 0xBB, CHR 0xBF]]"

text \<open>The length of the token the text starts with, \<open>0\<close> if it starts with none.\<close>

definition token_at :: "string list \<Rightarrow> string \<Rightarrow> nat" where
  "token_at toks s =
     (case List.find (\<lambda>t. take (length t) s = t) toks of None \<Rightarrow> 0 | Some t \<Rightarrow> length t)"

text \<open>
  Tokens are taken off the front as long as there is one; the first argument bounds
  the number of rounds, and the text itself is bound enough.
\<close>

fun strip_tokens :: "string list \<Rightarrow> string \<Rightarrow> string \<Rightarrow> string" where
  "strip_tokens toks [] s = s"
| "strip_tokens toks (f # fuel) s =
     (if token_at toks s = 0 then s else strip_tokens toks fuel (drop (token_at toks s) s))"

definition js_trim :: "string \<Rightarrow> string" where
  "js_trim s =
     (let t = strip_tokens ws_tokens s s
      in rev (strip_tokens (map rev ws_tokens) t (rev t)))"

text \<open>\<open>o[k] = v\<close> on the property list of an object: replace in place or append.\<close>

fun obj_set :: "(string \<times> jsval) list \<Rightarrow> string \<Rightarrow> jsval \<Rightarrow> (string \<times> jsval) list" where
  "obj_set [] k v = [(k, v)]"
| "obj_set ((k', v') # kvs) k v =
     (if k' = k then (k, v) # kvs else (k', v') # obj_set kvs k v)"

definition own_value :: "(string \<times> jsval) list \<Rightarrow> string \<Rightarrow> jsval" where
  "own_value kvs k = (case map_of kvs k of None \<Rightarrow> JUndefined | Some v \<Rightarrow> v)"

text \<open>
  The own enumerable properties of a value, as the spread \<open>{ ...v }\<close> copies them and
  \<open>Object.keys(v)\<close> and \<open>Object.entries(v)\<close> list them: the entries of an object, the
  indexed elements of an array, the indexed characters of a string, none for any
  other value.  \<open>Object.keys\<close> and \<open>Object.entries\<close> throw on \<open>null\<close> and
  \<open>undefined\<close>, the spread does not.
\<close>

definition indexed :: "'a list \<Rightarrow> (string \<times> 'a) list" where
  "indexed xs = zip (map digits [0..<length xs]) xs"

fun own_entries :: "jsval \<Rightarrow> (string \<times> jsval) list" where
  "own_entries (JObj kvs) = kvs"
| "own_entries (JArr xs) = indexed xs"
| "own_entries (JStr s) = indexed (map JStr (utf16_units s))"
| "own_entries v = []"

definition object_entries :: "jsval \<Rightarrow> (string \<times> jsval) list outcome" where
  "object_entries v = (if nullish v then Throws TypeError else Returns (own_entries v))"

definition object_keys :: "jsval \<Rightarrow> string list outcome" where
  "object_keys v = then_do (object_entries v) (\<lambda>kvs. Returns (map fst kvs))"

text \<open>
  The assignment \<open>target[k] = v\<close> inside a class body, which is strict code.  On \<open>null\<close>
  and \<open>undefined\<close> it throws a TypeError, and so it does on a primitive for every key
  but \<open>__proto__\<close>.  On an object it writes the own property, but for the key
  \<open>__proto__\<close> on an object without an own property of that name: there the inherited
  setter runs, which ignores a primitive value, and a primitive target, and makes an
  object or \<open>null\<close> the new prototype.  The keys the code assigns are never array
  indices, so on an array the result is outside the value type.
\<close>

fun set_prop :: "jsval \<Rightarrow> string \<Rightarrow> jsval \<Rightarrow> jsval outcome" where
  "set_prop (JObj kvs) k v =
     (if k = ''__proto__'' \<and> map_of kvs k = None
      then (case v of
              JObj p \<Rightarrow> Unmodelled | JArr p \<Rightarrow> Unmodelled | JNull \<Rightarrow> Unmodelled
            | _ \<Rightarrow> Returns (JObj kvs))
      else Returns (JObj (obj_set kvs k v)))"
| "set_prop (JArr xs) k v = Unmodelled"
| "set_prop JNull k v = Throws TypeError"
| "set_prop JUndefined k v = Throws TypeError"
| "set_prop target k v = (if k = ''__proto__'' then Returns target else Throws TypeError)"

text \<open>
  An interpolation \<open>${v}\<close> in a template literal whose text is not modelled: only
  whether printing the value throws.
\<close>

definition interpolate :: "jsval \<Rightarrow> unit outcome" where
  "interpolate v = then_do (String_js v) (\<lambda>s. Returns ())"

fun interpolate_all :: "jsval list \<Rightarrow> unit outcome" where
  "interpolate_all [] = Returns ()"
| "interpolate_all (v # vs) = then_do (interpolate v) (\<lambda>u. interpolate_all vs)"

text \<open>\<open>xs.join(sep)\<close> on the elements of an array.\<close>

definition join_js :: "string \<Rightarrow> jsval list \<Rightarrow> string outcome" where
  "join_js sep xs =
     join_outcomes sep (map (\<lambda>v. if nullish v then Returns [] else String_js v) xs)"

text \<open>A loop whose body may throw.\<close>

fun for_each :: "('a \<Rightarrow> unit outcome) \<Rightarrow> 'a list \<Rightarrow> unit outcome" where
  "for_each f [] = Returns ()"
| "for_each f (x # xs) = then_do (f x) (\<lambda>u. for_each f xs)"

text \<open>\<open>${v.join(', ')}\<close>.\<close>

definition interpolate_joined :: "jsval \<Rightarrow> unit outcome" where
  "interpolate_joined v =
     (case v of
        JArr xs \<Rightarrow> then_do (join_js '', '' xs) (\<lambda>s. Returns ())
      | _ \<Rightarrow> Throws TypeError)"

text \<open>\<open>${v[k]}\<close>.\<close>

definition interpolate_prop :: "jsval \<Rightarrow> string \<Rightarrow> unit outcome" where
  "interpolate_prop v k = then_do (get_prop v k) interpolate"

text \<open>\<open>${v[k] || fallback}\<close>, and \<open>${v[k] ? text with v[k] : fallback}\<close> alike.\<close>

definition interpolate_or :: "jsval \<Rightarrow> string \<Rightarrow> unit outcome" where
  "interpolate_or v k =
     then_do (get_prop v k) (\<lambda>x. if truthy x then interpolate x else Returns ())"

text \<open>\<open>${v[k] ? v[k].join(', ') : fallback}\<close>.\<close>

definition interpolate_joined_or :: "jsval \<Rightarrow> string \<Rightarrow> unit outcome" where
  "interpolate_joined_or v k =
     then_do (get_prop v k) (\<lambda>x. if truthy x then interpolate_joined x else Returns ())"

text \<open>\<open>try { body } catch (error) { handler }\<close>.\<close>

fun try_catch :: "'a outcome \<Rightarrow> (js_error \<Rightarrow> 'a outcome) \<Rightarrow> 'a outcome" where
  "try_catch (Returns x) h = Returns x"
| "try_catch (Throws e) h = h e"
| "try_catch Unmodelled h = Unmodelled"

text \<open>
  \<open>OpenAIAPIBase.callAPI\<close>: the capability either answers with a text or fails, and a
  failure is rethrown as one fixed error.  The answer is an input of the model.
\<close>

definition callAPI :: "string option \<Rightarrow> string outcome" where
  "callAPI answer =
     (case answer of
        None \<Rightarrow> Throws (Error ''Failed to get a response from the AI assistant.'')
      | Some content \<Rightarrow> Returns content)"

text \<open>
  What \<open>callAPI\<close>, the stripping of code fences and \<open>JSON.parse\<close> together give for an
  extraction request: the call failed, the text was no JSON, or the parsed value.
\<close>

datatype ai_reply = CallFailed | Unparsable | Parsed jsval

section \<open>VacancyBuilder\<close>

datatype field_type = string_t | enum_t | number_t | array_t | boolean_t

record field =
  name :: string
  displayName :: string
  ftype :: field_type

definition vacancyBuilder_fields :: "field list" where
  "vacancyBuilder_fields =
    [\<lparr>name = ''title'', displayName = ''Job Title'', ftype = string_t\<rparr>,
     \<lparr>name = ''department'', displayName = ''Department'', ftype = enum_t\<rparr>,
     \<lparr>name = ''location.type'', displayName = ''Location Type'', ftype = enum_t\<rparr>,
     \<lparr>name = ''location.city'', displayName = ''City'', ftype = string_t\<rparr>,
     \<lparr>name = ''domain'', displayName = ''Domain'', ftype = enum_t\<rparr>,
     \<lparr>name = ''salary.from'', displayName = ''Minimum Salary'', ftype = number_t\<rparr>,
     \<lparr>name = ''salary.to'', displayName = ''Maximum Salary'', ftype = number_t\<rparr>,
     \<lparr>name = ''experience.min'', displayName = ''Minimum Years of Experience'', ftype = number_t\<rparr>,
     \<lparr>name = ''experience.max'', displayName = ''Maximum Years of Experience'', ftype = number_t\<rparr>,
     \<lparr>name = ''responsibilities'', displayName = ''Responsibilities'', ftype = array_t\<rparr>,
     \<lparr>name = ''skills'', displayName = ''Primary Skills'', ftype = array_t\<rparr>,
     \<lparr>name = ''secondary_skills'', displayName = ''Secondary Skills'', ftype = array_t\<rparr>,
     \<lparr>name = ''soft_skills'', displayName = ''Soft Skills'', ftype = array_t\<rparr>,
     \<lparr>name = ''benefits'', displayName = ''Benefits'', ftype = array_t\<rparr>,
     \<lparr>name = ''is_remote'', displayName = ''Remote Work'', ftype = boolean_t\<rparr>]"

definition getVacancyTemplate :: jsval where
  "getVacancyTemplate =
     JObj [(''title'', JNull), (''department'', JNull),
           (''location'', JObj [(''type'', JNull), (''city'', JNull)]),
           (''domain'', JNull),
           (''salary'', JObj [(''from'', JNull), (''to'', JNull)]),
           (''experience'', JObj [(''min'', JNull), (''max'', JNull)]),
           (''responsibilities'', JArr []), (''skills'', JArr []),
           (''secondary_skills'', JArr []), (''soft_skills'', JArr []),
           (''benefits'', JArr []), (''is_remote'', JNull)]"

text \<open>\<open>names.indexOf(x)\<close>: the first position of \<open>x\<close>, or \<open>-1\<close>.\<close>

fun indexOf :: "string list \<Rightarrow> string \<Rightarrow> int" where
  "indexOf [] x = - 1"
| "indexOf (y # ys) x =
     (if y = x then 0 else (let i = indexOf ys x in if i < 0 then - 1 else i + 1))"

text \<open>\<open>xs.slice(start, end)\<close>; a negative argument counts from the end.\<close>

definition slice_index :: "nat \<Rightarrow> int \<Rightarrow> nat" where
  "slice_index len i = (if i < 0 then nat (max (int len + i) 0) else min (nat i) len)"

definition js_slice :: "'a list \<Rightarrow> int \<Rightarrow> int \<Rightarrow> 'a list" where
  "js_slice xs start fin =
     (let k = slice_index (length xs) start; e = slice_index (length xs) fin
      in take (e - k) (drop k xs))"

text \<open>
  The test of the loop in \<open>findNextFieldToFill\<close>:
  \<^verbatim>\<open>value === null || (Array.isArray(value) && value.length === 0) || value === ''\<close>.
\<close>

definition needs_filling :: "jsval \<Rightarrow> bool" where
  "needs_filling v = (v = JNull \<or> (case v of JArr xs \<Rightarrow> length xs = 0 | _ \<Rightarrow> False) \<or> v = JStr [])"

text \<open>The \<open>for ... of\<close> loop over \<open>searchOrder\<close>, returning at the first hit.\<close>

fun search_fields :: "field list \<Rightarrow> jsval \<Rightarrow> string list \<Rightarrow> field option outcome" where
  "search_fields this_fields vacancy [] = Returns None"
| "search_fields this_fields vacancy (fieldName # rest) =
     then_do (getValueByPath vacancy (JStr fieldName))
       (\<lambda>v. if needs_filling v
             then Returns (List.find (\<lambda>f. name f = fieldName) this_fields)
             else search_fields this_fields vacancy rest)"

text \<open>
  \<open>findNextFieldToFill(vacancy, lastFieldName)\<close>, with \<open>this.fields\<close> as its first
  argument.  \<open>lastFieldName\<close> is \<open>null\<close> or the name stored in the session.
\<close>

definition findNextFieldToFill :: "field list \<Rightarrow> jsval \<Rightarrow> jsval \<Rightarrow> field option outcome" where
  "findNextFieldToFill this_fields vacancy lastFieldName =
     (let fieldNames = map name this_fields;
          lastIndex = (if truthy lastFieldName
                       then (case lastFieldName of JStr s \<Rightarrow> indexOf fieldNames s | _ \<Rightarrow> - 1)
                       else - 1);
          searchOrder = js_slice fieldNames (lastIndex + 1) (int (length fieldNames))
                        @ js_slice fieldNames 0 (lastIndex + 1)
      in search_fields this_fields vacancy searchOrder)"

text \<open>
  \<open>extractAndUpdateFields\<close>: the three properties of its result that the route reads.
  The prompt is built before the \<open>try\<close> and interpolates the user's message twice,
  so a message that cannot be printed throws out of the method.  Any failure inside
  the \<open>try\<close> (the call, the parse, a reply without a truthy \<open>status\<close> or
  \<open>updatedVacancy\<close>) gives the fallback with the vacancy as it was.
\<close>

record extraction_result =
  er_status :: jsval
  er_updatedVacancy :: jsval
  er_commentary :: jsval

definition rephrase_request :: string where
  "rephrase_request =
     ''I'' @ [CHR 0x27] @ ''m having a little trouble understanding. Could you please rephrase that?''"

definition extraction_fallback :: "jsval \<Rightarrow> extraction_result" where
  "extraction_fallback vacancy =
     \<lparr>er_status = JStr ''CLARIFICATION_NEEDED'', er_updatedVacancy = vacancy,
      er_commentary = JStr rephrase_request\<rparr>"

definition parse_extraction :: "ai_reply \<Rightarrow> extraction_result outcome" where
  "parse_extraction reply =
     (case reply of
        CallFailed \<Rightarrow> Throws (Error ''Failed to get a response from the AI assistant.'')
      | Unparsable \<Rightarrow> Throws SyntaxError
      | Parsed parsedResult \<Rightarrow>
          then_do (get_prop parsedResult ''status'') (\<lambda>st.
          if \<not> truthy st
          then Throws (Error ''AI response is missing status or updatedVacancy fields.'')
          else then_do (get_prop parsedResult ''updatedVacancy'') (\<lambda>uv.
          if \<not> truthy uv
          then Throws (Error ''AI response is missing status or updatedVacancy fields.'')
          else then_do (get_prop parsedResult ''commentary'') (\<lambda>c.
          Returns \<lparr>er_status = st, er_updatedVacancy = uv, er_commentary = c\<rparr>))))"

definition extractAndUpdateFields :: "jsval \<Rightarrow> jsval \<Rightarrow> ai_reply \<Rightarrow> extraction_result outcome" where
  "extractAndUpdateFields vacancy userInput reply =
     then_do (interpolate_all [userInput, userInput]) (\<lambda>prompt.
       try_catch (parse_extraction reply) (\<lambda>error. Returns (extraction_fallback vacancy)))"

text \<open>
  \<open>generateJobDescription\<close> of this class builds its prompt from properties of the
  vacancy before it calls the capability; the prompt's text is not modelled, only
  whether building it throws.  The destructuring needs a vacancy to read from; every
  interpolated value is printed; \<open>coreSkills.join\<close> and \<open>secondarySkills.join\<close> need
  arrays, no other JSON-shaped value having a callable \<open>join\<close>; \<open>languages.map\<close> needs
  an array none of whose elements is \<open>null\<close> or \<open>undefined\<close>; and
  \<open>salaryExpectations.min\<close> needs a value to read from.
\<close>

definition build_description_prompt :: "jsval \<Rightarrow> unit outcome" where
  "build_description_prompt vacancy =
     then_do (get_prop vacancy ''title'') (\<lambda>title.
     then_do (get_prop vacancy ''department'') (\<lambda>department.
     then_do (get_prop vacancy ''locationType'') (\<lambda>locationType.
     then_do (get_prop vacancy ''employmentType'') (\<lambda>employmentType.
     then_do (get_prop vacancy ''companyType'') (\<lambda>companyType.
     then_do (get_prop vacancy ''domain'') (\<lambda>domain.
     then_do (get_prop vacancy ''overallExperiencesFrom'') (\<lambda>overallExperiencesFrom.
     then_do (get_prop vacancy ''overallExperiencesTo'') (\<lambda>overallExperiencesTo.
     then_do (get_prop vacancy ''coreSkills'') (\<lambda>coreSkills.
     then_do (get_prop vacancy ''secondarySkills'') (\<lambda>secondarySkills.
     then_do (get_prop vacancy ''languages'') (\<lambda>languages.
     then_do (get_prop vacancy ''salaryExpectations'') (\<lambda>salaryExpectations.
     then_do (get_prop vacancy ''additionalInformation'') (\<lambda>additionalInformation.
     then_do (interpolate_all [title, department, locationType, employmentType, companyType,
                               domain, overallExperiencesFrom, overallExperiencesTo]) (\<lambda>u.
     then_do (interpolate_joined coreSkills) (\<lambda>u.
     then_do (interpolate_joined secondarySkills) (\<lambda>u.
     then_do (case languages of
                JArr ls \<Rightarrow>
                  for_each (\<lambda>lang. then_do (interpolate_prop lang ''language'')
                                     (\<lambda>u. interpolate_prop lang ''level'')) ls
              | _ \<Rightarrow> Throws TypeError) (\<lambda>u.
     then_do (interpolate_prop salaryExpectations ''min'') (\<lambda>u.
     then_do (interpolate_prop salaryExpectations ''max'') (\<lambda>u.
     interpolate_all [additionalInformation, companyType, domain, department])))))))))))))))))))"

definition builder_generateJobDescription :: "jsval \<Rightarrow> string option \<Rightarrow> string outcome" where
  "builder_generateJobDescription vacancy describeApi =
     then_do (build_description_prompt vacancy) (\<lambda>u. callAPI describeApi)"

text \<open>
  The session of the route.  \<open>lastQuestionField\<close> is \<open>null\<close> or a field name; the
  content of a history entry is whatever the request or the capability supplied.
\<close>

record session =
  sid :: string
  conversationHistory :: "(string \<times> jsval) list"
  s_vacancy :: jsval
  s_status :: string
  lastQuestionField :: jsval

definition all_details_prefix :: string where
  "all_details_prefix =
     ''Looks like we have all the details. Here is the generated vacancy description:''
       @ [CHR 0x0A, CHR 0x0A]"

text \<open>
  \<open>generateNextResponse(session)\<close>: the selector decides between the description and
  the next question.  It stores the asked field in the session before it calls the
  capability, so the session comes back also when the call throws.
\<close>

definition generateNextResponse ::
  "session \<Rightarrow> string option \<Rightarrow> string option \<Rightarrow> session \<times> (string \<times> bool) outcome" where
  "generateNextResponse session describeApi questionApi =
     (case findNextFieldToFill vacancyBuilder_fields (s_vacancy session) (lastQuestionField session) of
        Throws e \<Rightarrow> (session, Throws e)
      | Unmodelled \<Rightarrow> (session, Unmodelled)
      | Returns None \<Rightarrow>
          (session,
           then_do (builder_generateJobDescription (s_vacancy session) describeApi)
             (\<lambda>vacancyText. Returns (all_details_prefix @ vacancyText, True)))
      | Returns (Some nextField) \<Rightarrow>
          (session\<lparr>lastQuestionField := JStr (name nextField)\<rparr>,
           then_do (callAPI questionApi)
             (\<lambda>question. Returns (filter (\<lambda>c. c \<noteq> CHR 0x22) question, False))))"

text \<open>The answer of the route: the JSON body, or status 500 from its \<open>catch\<close>.\<close>

datatype reply = Json string jsval bool | ServerError

definition respond_next ::
  "session \<Rightarrow> string option \<Rightarrow> string option \<Rightarrow> session \<times> reply outcome" where
  "respond_next session describeApi questionApi =
     (case generateNextResponse session describeApi questionApi of
        (s, Returns (msg, isComplete)) \<Rightarrow>
          (s\<lparr>conversationHistory := conversationHistory s @ [(''assistant'', JStr msg)],
             s_status := (if isComplete then ''pending_generation'' else ''collecting'')\<rparr>,
           Returns (Json (sid s) (JStr msg) isComplete))
      | (s, Throws e) \<Rightarrow> (s, Returns ServerError)
      | (s, Unmodelled) \<Rightarrow> (s, Unmodelled))"

text \<open>
  The route \<open>POST /api/recruiter/chat\<close> on the session it found or created: the user
  message is recorded, the extraction result replaces the vacancy
  (\<^verbatim>\<open>session.vacancy = extractionResult.updatedVacancy; // Always update the vacancy\<close>),
  and only then the status is looked at.  Whatever is thrown ends in the route's
  \<open>catch\<close> and status 500.
\<close>

definition recruiter_chat ::
  "session \<Rightarrow> jsval \<Rightarrow> ai_reply \<Rightarrow> string option \<Rightarrow> string option \<Rightarrow> session \<times> reply outcome" where
  "recruiter_chat session message extraction describeApi questionApi =
     (if truthy message then
        (let s1 = session\<lparr>conversationHistory :=
                             conversationHistory session @ [(''user'', message)]\<rparr>
         in case extractAndUpdateFields (s_vacancy s1) message extraction of
              Returns extractionResult \<Rightarrow>
                (let s2 = s1\<lparr>s_vacancy := er_updatedVacancy extractionResult\<rparr>
                 in if er_status extractionResult = JStr ''CLARIFICATION_NEEDED''
                    then (s2\<lparr>conversationHistory := conversationHistory s2
                                @ [(''assistant'', er_commentary extractionResult)]\<rparr>,
                          Returns (Json (sid s2) (er_commentary extractionResult) False))
                    else respond_next s2 describeApi questionApi)
            | Throws e \<Rightarrow> (s1, Returns ServerError)
            | Unmodelled \<Rightarrow> (s1, Unmodelled))
      else respond_next session describeApi questionApi)"

text \<open>
  The scenario of ring coverage: \<open>n\<close> calls of the selector on one vacancy, each with
  the field returned by the call before as \<open>lastQuestionField\<close>
  (\<^verbatim>\<open>session.lastQuestionField = nextField.name\<close>); the names returned, in order.
\<close>

fun ring_visits :: "field list \<Rightarrow> jsval \<Rightarrow> jsval \<Rightarrow> nat \<Rightarrow> string list" where
  "ring_visits this_fields vacancy lastFieldName 0 = []"
| "ring_visits this_fields vacancy lastFieldName (Suc n) =
     (case findNextFieldToFill this_fields vacancy lastFieldName of
        Returns (Some f) \<Rightarrow> name f # ring_visits this_fields vacancy (JStr (name f)) n
      | _ \<Rightarrow> [])"

text \<open>
  The selector as the specification words it: the field list rotated to start right
  after the last asked field, and the first field of that order that is unfilled.
\<close>

definition ring_order :: "string list \<Rightarrow> jsval \<Rightarrow> string list" where
  "ring_order names lastAskedField =
     (case lastAskedField of
        JStr s \<Rightarrow> if s \<in> set names then rotate (Suc (nat (indexOf names s))) names else names
      | _ \<Rightarrow> names)"

definition value_at :: "jsval \<Rightarrow> string \<Rightarrow> jsval" where
  "value_at record p = (case getValueByPath record (JStr p) of Returns v \<Rightarrow> v | _ \<Rightarrow> JUndefined)"

definition selectNext_spec ::
  "(string \<Rightarrow> jsval \<Rightarrow> bool) \<Rightarrow> string list \<Rightarrow> jsval \<Rightarrow> jsval \<Rightarrow> string option" where
  "selectNext_spec unfilled names record lastAskedField =
     List.find (\<lambda>p. unfilled p (value_at record p)) (ring_order names lastAskedField)"

text \<open>
  Unfilled as the specification words it for the selector: \<open>null\<close>, an array with zero
  elements, or an empty or whitespace-only string; for a boolean field only \<open>null\<close>
  and \<open>undefined\<close>.
\<close>

definition spec_unfilled :: "field list \<Rightarrow> string \<Rightarrow> jsval \<Rightarrow> bool" where
  "spec_unfilled schema p v =
     (if list_ex (\<lambda>f. name f = p \<and> ftype f = boolean_t) schema
      then v = JNull \<or> v = JUndefined
      else v = JNull \<or> v = JArr [] \<or> (case v of JStr s \<Rightarrow> js_trim s = [] | _ \<Rightarrow> False))"

section \<open>IntelligentRecruiterChat\<close>

definition vacancyTemplate :: jsval where
  "vacancyTemplate =
     JObj [(''title'', JNull), (''description'', JNull),
           (''authorId'', JStr ''user_2hm9OQpFfHybPE5X2YAKC10dfJW''),
           (''orgId'', JStr ''org_2hm9FHY47aoA4uB6HZVf64dohbO''),
           (''hiringCompanyId'', JStr ''bac58803-ce02-4fcd-abea-7d89652037aa''),
           (''department'', JNull), (''additionalInformation'', JNull),
           (''locationType'', JNull), (''remote'', JNull), (''aiModel'', JNull),
           (''companyType'', JNull), (''employmentType'', JNull), (''domain'', JNull),
           (''isTestsTask'', JNull), (''coreSkills'', JArr []), (''secondarySkills'', JArr []),
           (''overallExperiencesFrom'', JNull), (''overallExperiencesTo'', JNull),
           (''education'', JNull), (''languages'', JArr []),
           (''salaryExpectations'',
              JObj [(''min'', JNull), (''max'', JNull), (''currency'', JStr ''USD'')])]"

text \<open>The schema \<open>this.vacancyFields\<close>: the name and the type of every field.\<close>

definition vacancyFields :: "(string \<times> field_type) list" where
  "vacancyFields =
     [(''title'', string_t), (''description'', string_t), (''department'', enum_t),
      (''additionalInformation'', string_t), (''locationType'', enum_t),
      (''remote'', boolean_t), (''aiModel'', enum_t), (''companyType'', enum_t),
      (''employmentType'', enum_t), (''domain'', enum_t), (''isTestsTask'', boolean_t),
      (''coreSkills'', array_t), (''secondarySkills'', array_t),
      (''overallExperiencesFrom'', number_t), (''overallExperiencesTo'', number_t),
      (''education'', boolean_t), (''languages'', array_t),
      (''salaryExpectations.min'', number_t), (''salaryExpectations.max'', number_t)]"

definition requiredFields :: "string list" where
  "requiredFields = [''title'', ''department'', ''domain'', ''coreSkills'', ''overallExperiencesFrom'']"

text \<open>
  The loop of \<open>isVacancyComplete\<close>:
  \<^verbatim>\<open>if (!value || (Array.isArray(value) && value.length === 0)) return false\<close>.
\<close>

fun required_present :: "jsval \<Rightarrow> string list \<Rightarrow> bool outcome" where
  "required_present vacancy [] = Returns True"
| "required_present vacancy (field # rest) =
     then_do (getValueByPath vacancy (JStr field))
       (\<lambda>v. if \<not> truthy v \<or> (case v of JArr xs \<Rightarrow> length xs = 0 | _ \<Rightarrow> False)
             then Returns False
             else required_present vacancy rest)"

definition isVacancyComplete :: "jsval \<Rightarrow> bool outcome" where
  "isVacancyComplete vacancy = required_present vacancy requiredFields"

definition allFields :: "string list" where
  "allFields =
     [''title'', ''department'', ''domain'', ''coreSkills'', ''overallExperiencesFrom'',
      ''salaryExpectations.min'', ''locationType'', ''employmentType'', ''companyType'',
      ''secondarySkills'', ''overallExperiencesTo'', ''languages'', ''education'',
      ''isTestsTask'', ''description'']"

text \<open>
  The body of the loop of \<open>getNextMissingField\<close>: whether \<open>field\<close>, holding \<open>v\<close>, is
  the one to return.  Boolean fields and the two optional text fields are missing
  only when \<open>null\<close> or \<open>undefined\<close>; any other field also when it is an empty array,
  \<open>NaN\<close>, or a string that trims to nothing.
\<close>

definition field_missing :: "string \<Rightarrow> jsval \<Rightarrow> bool" where
  "field_missing field v =
     (let isEmpty = (v = JNull \<or> v = JUndefined
                     \<or> (case v of JArr xs \<Rightarrow> length xs = 0 | _ \<Rightarrow> False)
                     \<or> v = JNaN)
      in if field = ''isTestsTask'' \<or> field = ''education'' \<or> field = ''remote''
         then v = JNull \<or> v = JUndefined
         else if field = ''description'' \<or> field = ''additionalInformation''
         then v = JNull \<or> v = JUndefined
         else isEmpty \<or> (case v of JStr s \<Rightarrow> js_trim s = [] | _ \<Rightarrow> False))"

fun first_missing :: "jsval \<Rightarrow> string list \<Rightarrow> string option outcome" where
  "first_missing vacancy [] = Returns None"
| "first_missing vacancy (field # rest) =
     then_do (getValueByPath vacancy (JStr field))
       (\<lambda>v. if field_missing field v then Returns (Some field)
             else first_missing vacancy rest)"

definition getNextMissingField :: "jsval \<Rightarrow> string option outcome" where
  "getNextMissingField vacancy = first_missing vacancy allFields"

text \<open>
  \<open>checkForSkipResponse\<close>.  The default it substitutes is chosen by the name of the
  pending field (\<^verbatim>\<open>// Smart default values based on field type\<close>); \<open>nextField\<close> is
  \<open>None\<close> when no field is missing.
\<close>

definition skip_default :: "string option \<Rightarrow> jsval" where
  "skip_default nextField =
     (if nextField = Some ''isTestsTask'' \<or> nextField = Some ''education''
         \<or> nextField = Some ''remote''
      then JBool False
      else if nextField = Some ''secondarySkills'' \<or> nextField = Some ''languages''
      then JArr []
      else if (case nextField of None \<Rightarrow> False | Some f \<Rightarrow> str_includes f ''salaryExpectations'')
              \<or> nextField = Some ''overallExperiencesTo''
      then JNull
      else JStr [])"

record skip_response =
  shouldSkip :: bool
  skip_value :: jsval
  skip_field :: "string option"

definition no_skip :: skip_response where
  "no_skip = \<lparr>shouldSkip = False, skip_value = JUndefined, skip_field = None\<rparr>"

definition checkForSkipResponse :: "string \<Rightarrow> jsval \<Rightarrow> string option \<Rightarrow> skip_response outcome" where
  "checkForSkipResponse userMessage currentVacancy skipApi =
     try_catch
       (then_do (getNextMissingField currentVacancy) (\<lambda>nextField.
        then_do (callAPI skipApi) (\<lambda>response.
          if str_includes (js_trim (toLowerCase response)) ''skip''
          then Returns \<lparr>shouldSkip = True, skip_value = skip_default nextField,
                        skip_field = nextField\<rparr>
          else Returns no_skip)))
       (\<lambda>error. Returns no_skip)"

text \<open>
  \<open>applySmartMappings\<close> changes \<open>updatedVacancy\<close>, the capability's parsed reply, in
  place; the model returns the changed value.  The two patterns with capture groups
  are matched by the regular-expression engine; what they captured in the lower-cased
  message, already through \<open>parseInt\<close>, is an input.
\<close>

record regex_matches =
  salaryMatch :: "(int \<times> int option) option"
  expMatch :: "int option"

text \<open>\<open>!currentVacancy[key]\<close>.\<close>

definition current_falsy :: "jsval \<Rightarrow> string \<Rightarrow> bool outcome" where
  "current_falsy currentVacancy key =
     then_do (get_prop currentVacancy key) (\<lambda>v. Returns (\<not> truthy v))"

text \<open>
  Auto-fill department for developer roles: the title, lower-cased, includes
  \<open>developer\<close>, \<open>engineer\<close>, \<open>frontend\<close> or \<open>backend\<close>.
\<close>

definition developer_title :: "string \<Rightarrow> bool" where
  "developer_title t =
     (str_includes (toLowerCase t) ''developer'' \<or> str_includes (toLowerCase t) ''engineer''
      \<or> str_includes (toLowerCase t) ''frontend'' \<or> str_includes (toLowerCase t) ''backend'')"

definition map_department :: "jsval \<Rightarrow> jsval \<Rightarrow> jsval outcome" where
  "map_department updatedVacancy currentVacancy =
     then_do (get_prop updatedVacancy ''title'') (\<lambda>title.
       if \<not> truthy title then Returns updatedVacancy
       else (case title of
               JStr t \<Rightarrow>
                 if developer_title t
                 then then_do (current_falsy currentVacancy ''department'') (\<lambda>unset.
                        if unset then set_prop updatedVacancy ''department'' (JStr ''IT'')
                        else Returns updatedVacancy)
                 else Returns updatedVacancy
             | _ \<Rightarrow> Throws TypeError))"

text \<open>Map salary patterns: \<^verbatim>\<open>salaryMatch && !currentVacancy.salaryExpectations?.min\<close>.\<close>

definition map_salary :: "jsval \<Rightarrow> jsval \<Rightarrow> (int \<times> int option) option \<Rightarrow> jsval outcome" where
  "map_salary updatedVacancy currentVacancy sm =
     (case sm of
        None \<Rightarrow> Returns updatedVacancy
      | Some (lo, hi) \<Rightarrow>
          then_do (get_prop currentVacancy ''salaryExpectations'') (\<lambda>se.
          then_do (if nullish se then Returns JUndefined else get_prop se ''min'') (\<lambda>mn.
            if \<not> truthy mn
            then set_prop updatedVacancy ''salaryExpectations''
                   (JObj [(''min'', JNum lo),
                          (''max'', (case hi of None \<Rightarrow> JNull | Some h \<Rightarrow> JNum h)),
                          (''currency'', JStr ''USD'')])
            else Returns updatedVacancy)))"

text \<open>
  Map location types.  The third condition is
  \<^verbatim>\<open>msg.includes('office') || msg.includes('on-site') && !currentVacancy.locationType\<close>,
  in which \<open>&&\<close> binds tighter than \<open>||\<close>.
\<close>

definition set_on_site :: "jsval \<Rightarrow> jsval outcome" where
  "set_on_site updatedVacancy = set_prop updatedVacancy ''locationType'' (JStr ''on_site'')"

definition map_location_office :: "jsval \<Rightarrow> string \<Rightarrow> jsval \<Rightarrow> jsval outcome" where
  "map_location_office updatedVacancy msg currentVacancy =
     (if str_includes msg ''office'' then set_on_site updatedVacancy
      else if str_includes msg ''on-site''
      then then_do (current_falsy currentVacancy ''locationType'') (\<lambda>unset.
             if unset then set_on_site updatedVacancy else Returns updatedVacancy)
      else Returns updatedVacancy)"

definition map_location_hybrid :: "jsval \<Rightarrow> string \<Rightarrow> jsval \<Rightarrow> jsval outcome" where
  "map_location_hybrid updatedVacancy msg currentVacancy =
     (if str_includes msg ''hybrid''
      then then_do (current_falsy currentVacancy ''locationType'') (\<lambda>unset.
             if unset then set_prop updatedVacancy ''locationType'' (JStr ''hybrid'')
             else map_location_office updatedVacancy msg currentVacancy)
      else map_location_office updatedVacancy msg currentVacancy)"

definition map_location :: "jsval \<Rightarrow> string \<Rightarrow> jsval \<Rightarrow> jsval outcome" where
  "map_location updatedVacancy msg currentVacancy =
     (if str_includes msg ''remote''
      then then_do (current_falsy currentVacancy ''locationType'') (\<lambda>unset.
             if unset
             then then_do (set_prop updatedVacancy ''locationType'' (JStr ''remote''))
                    (\<lambda>u. set_prop u ''remote'' (JBool True))
             else map_location_hybrid updatedVacancy msg currentVacancy)
      else map_location_hybrid updatedVacancy msg currentVacancy)"

text \<open>Map employment type.\<close>

definition map_employment_part :: "jsval \<Rightarrow> string \<Rightarrow> jsval \<Rightarrow> jsval outcome" where
  "map_employment_part updatedVacancy msg currentVacancy =
     (if str_includes msg ''part'' \<and> str_includes msg ''time''
      then then_do (current_falsy currentVacancy ''employmentType'') (\<lambda>unset.
             if unset then set_prop updatedVacancy ''employmentType'' (JStr ''part-time'')
             else Returns updatedVacancy)
      else Returns updatedVacancy)"

definition map_employment :: "jsval \<Rightarrow> string \<Rightarrow> jsval \<Rightarrow> jsval outcome" where
  "map_employment updatedVacancy msg currentVacancy =
     (if str_includes msg ''full'' \<and> str_includes msg ''time''
      then then_do (current_falsy currentVacancy ''employmentType'') (\<lambda>unset.
             if unset then set_prop updatedVacancy ''employmentType'' (JStr ''full-time'')
             else map_employment_part updatedVacancy msg currentVacancy)
      else map_employment_part updatedVacancy msg currentVacancy)"

text \<open>Map experience numbers.\<close>

definition map_experience :: "jsval \<Rightarrow> jsval \<Rightarrow> int option \<Rightarrow> jsval outcome" where
  "map_experience updatedVacancy currentVacancy em =
     (case em of
        None \<Rightarrow> Returns updatedVacancy
      | Some years \<Rightarrow>
          then_do (current_falsy currentVacancy ''overallExperiencesFrom'') (\<lambda>unset.
            if unset then set_prop updatedVacancy ''overallExperiencesFrom'' (JNum years)
            else Returns updatedVacancy))"

text \<open>
  Map common skills.  Every pattern of \<open>skillPatterns\<close> is a case-insensitive search
  of the message as it was typed for one of a few words: the skill, then the words
  one of which must occur.
\<close>

definition skillPatterns :: "(string \<times> string list) list" where
  "skillPatterns =
     [(''react'', [''react'']), (''next'', [''next'']), (''vue'', [''vue'']),
      (''angular'', [''angular'']), (''node'', [''node'']),
      (''typescript'', [''typescript'', ''ts'']), (''javascript'', [''javascript'', ''js'']),
      (''python'', [''python'']), (''docker'', [''docker'']),
      (''kubernetes'', [''kubernetes'', ''k8s'']),
      (''aws'', [''aws'', ''amazon web services'']), (''azure'', [''azure'']),
      (''gcp'', [''gcp'', ''google cloud''])]"

definition foundSkills :: "string \<Rightarrow> string list" where
  "foundSkills userMessage =
     map fst (filter (\<lambda>(skill, ws). list_ex (str_includes (fold_case userMessage)) ws)
                skillPatterns)"

definition map_skills :: "jsval \<Rightarrow> string \<Rightarrow> jsval \<Rightarrow> jsval outcome" where
  "map_skills updatedVacancy userMessage currentVacancy =
     then_do (get_prop currentVacancy ''coreSkills'') (\<lambda>cs.
     then_do (if \<not> truthy cs then Returns True
              else then_do (get_prop cs ''length'') (\<lambda>n. Returns (n = JNum 0))) (\<lambda>empty.
       if empty \<and> foundSkills userMessage \<noteq> []
       then set_prop updatedVacancy ''coreSkills'' (JArr (map JStr (foundSkills userMessage)))
       else Returns updatedVacancy))"

definition applySmartMappings :: "jsval \<Rightarrow> string \<Rightarrow> jsval \<Rightarrow> regex_matches \<Rightarrow> jsval outcome" where
  "applySmartMappings updatedVacancy userMessage currentVacancy m =
     (let msg = toLowerCase userMessage in
      then_do (map_department updatedVacancy currentVacancy) (\<lambda>u1.
      then_do (map_salary u1 currentVacancy (salaryMatch m)) (\<lambda>u2.
      then_do (map_location u2 msg currentVacancy) (\<lambda>u3.
      then_do (map_employment u3 msg currentVacancy) (\<lambda>u4.
      then_do (map_experience u4 currentVacancy (expMatch m)) (\<lambda>u5.
      map_skills u5 userMessage currentVacancy))))))"

text \<open>
  The merge of \<open>analyzeMessage\<close>:
  \<^verbatim>\<open>const mergedVacancy = { ...currentVacancy };
  Object.keys(updatedVacancy).forEach(key => {
      if (updatedVacancy[key] !== null && updatedVacancy[key] !== undefined) {
          mergedVacancy[key] = updatedVacancy[key];
      }
  });\<close>
\<close>

fun merge_keys :: "jsval \<Rightarrow> string list \<Rightarrow> jsval \<Rightarrow> jsval outcome" where
  "merge_keys updatedVacancy [] merged = Returns merged"
| "merge_keys updatedVacancy (key # keys) merged =
     then_do (get_prop updatedVacancy key) (\<lambda>v.
       if v \<noteq> JNull \<and> v \<noteq> JUndefined
       then then_do (set_prop merged key v) (\<lambda>merged'. merge_keys updatedVacancy keys merged')
       else merge_keys updatedVacancy keys merged)"

definition mergedVacancy :: "jsval \<Rightarrow> jsval \<Rightarrow> jsval outcome" where
  "mergedVacancy currentVacancy updatedVacancy =
     (let merged = JObj (own_entries currentVacancy) in
      then_do (object_keys updatedVacancy) (\<lambda>keys. merge_keys updatedVacancy keys merged))"

text \<open>
  The skip branch of \<open>analyzeMessage\<close>: a copy of the vacancy in which the next
  missing field holds the default.  A dotted field is split into parent and child;
  a falsy parent is replaced by an empty object first, and the child is assigned on
  whatever the parent holds then.
\<close>

definition skip_update :: "jsval \<Rightarrow> jsval \<Rightarrow> jsval outcome" where
  "skip_update currentVacancy v =
     (let updatedVacancy = JObj (own_entries currentVacancy) in
      then_do (getNextMissingField currentVacancy) (\<lambda>nextField.
        case nextField of
          None \<Rightarrow> Returns updatedVacancy
        | Some f \<Rightarrow>
            if str_includes f ''.''
            then (let parent = hd (split_dot f);
                      child = (case tl (split_dot f) of [] \<Rightarrow> ''undefined'' | c # cs \<Rightarrow> c)
                  in then_do (get_prop updatedVacancy parent) (\<lambda>p.
                     then_do (if \<not> truthy p then set_prop updatedVacancy parent (JObj [])
                              else Returns updatedVacancy) (\<lambda>updated1.
                     then_do (get_prop updated1 parent) (\<lambda>p1.
                     then_do (set_prop p1 child v) (\<lambda>p2.
                     set_prop updated1 parent p2)))))
            else set_prop updatedVacancy f v))"

record analysis =
  a_success :: bool
  a_error :: "string option"
  a_updatedVacancy :: jsval

text \<open>
  \<open>analyzeMessage\<close>.  The skip check comes first and, when it says skip, the extraction
  capability is not called.  The inner \<open>catch\<close> takes a failed parse and anything
  thrown while mapping and merging, the outer one everything else.
\<close>

definition analyzeMessage ::
  "string \<Rightarrow> jsval \<Rightarrow> string option \<Rightarrow> ai_reply \<Rightarrow> regex_matches \<Rightarrow> analysis outcome" where
  "analyzeMessage userMessage currentVacancy skipApi extraction m =
     try_catch
       (then_do (checkForSkipResponse userMessage currentVacancy skipApi) (\<lambda>skipResponse.
          if shouldSkip skipResponse
          then then_do (skip_update currentVacancy (skip_value skipResponse)) (\<lambda>u.
                 Returns \<lparr>a_success = True, a_error = None, a_updatedVacancy = u\<rparr>)
          else (case extraction of
                  CallFailed \<Rightarrow> Throws (Error ''Failed to get a response from the AI assistant.'')
                | Unparsable \<Rightarrow>
                    Returns \<lparr>a_success = False, a_error = Some ''Data processing error'',
                             a_updatedVacancy = currentVacancy\<rparr>
                | Parsed updatedVacancy \<Rightarrow>
                    try_catch
                      (then_do (applySmartMappings updatedVacancy userMessage currentVacancy m)
                         (\<lambda>u. then_do (mergedVacancy currentVacancy u) (\<lambda>merged.
                            Returns \<lparr>a_success = True, a_error = None,
                                     a_updatedVacancy = merged\<rparr>)))
                      (\<lambda>parseError.
                         Returns \<lparr>a_success = False, a_error = Some ''Data processing error'',
                                  a_updatedVacancy = currentVacancy\<rparr>))))
       (\<lambda>error. Returns \<lparr>a_success = False, a_error = Some ''AI analysis error'',
                         a_updatedVacancy = currentVacancy\<rparr>)"

text \<open>The tables of \<open>getFieldDescription\<close> and of the fallback questions.\<close>

definition descriptions :: "(string \<times> string) list" where
  "descriptions =
     [(''title'', ''job title''), (''department'', ''department''),
      (''domain'', ''business domain/industry''),
      (''coreSkills'', ''required skills and technologies''),
      (''overallExperiencesFrom'', ''minimum years of experience''),
      (''salaryExpectations.min'', ''salary range''),
      (''locationType'', ''work format (remote/hybrid/on-site)''),
      (''employmentType'', ''employment type (full-time/part-time)''),
      (''companyType'', ''company type''),
      (''secondarySkills'', ''additional nice-to-have skills''),
      (''overallExperiencesTo'', ''maximum years of experience''),
      (''languages'', ''language requirements''),
      (''education'', ''education requirements''),
      (''isTestsTask'', ''test assignment requirement''),
      (''description'', ''job description and additional details about the role'')]"

definition getFieldDescription :: "string \<Rightarrow> string" where
  "getFieldDescription fieldName =
     (case map_of descriptions fieldName of None \<Rightarrow> fieldName | Some d \<Rightarrow> d)"

definition fallbackQuestions :: "(string \<times> string) list" where
  "fallbackQuestions =
     [(''title'', ''What job title are we hiring for?''),
      (''department'', ''Which department will this role be in?''),
      (''domain'', ''What industry or business domain is this for?''),
      (''coreSkills'', ''What are the main skills or technologies required?''),
      (''overallExperiencesFrom'', ''How many years of experience should candidates have?''),
      (''salaryExpectations.min'', ''What salary range are you offering?''),
      (''locationType'', ''Will this be remote, hybrid, or on-site work?''),
      (''employmentType'', ''Is this a full-time or part-time position?''),
      (''companyType'', ''What type of company is this?''),
      (''secondarySkills'', ''Any additional nice-to-have skills?''),
      (''overallExperiencesTo'',
         ''What'' @ [CHR 0x27] @ ''s the maximum experience level you'' @ [CHR 0x27]
           @ ''d consider?''),
      (''languages'', ''Any specific language requirements?''),
      (''education'', ''Do you require higher education?''),
      (''isTestsTask'', ''Will there be a test assignment?''),
      (''description'',
         ''Please provide a brief description of the role and any additional details that would help candidates understand the position better.'')]"

text \<open>
  The fixed texts of the turn.  A character outside ASCII stands as its UTF-8 bytes.
\<close>

definition rocket :: string where
  "rocket = [CHR 0xF0, CHR 0x9F, CHR 0x9A, CHR 0x80]"

definition all_collected_message :: "string \<Rightarrow> string" where
  "all_collected_message title =
     [CHR 0xF0, CHR 0x9F, CHR 0x8E, CHR 0x89]
     @ '' Perfect! We have collected all the information needed for your ''
     @ title @ '' position.'' @ [CHR 0x0A, CHR 0x0A]
     @ ''I'' @ [CHR 0x27] @ ''ll generate the complete job description now! '' @ rocket"

definition generate_early_message :: string where
  "generate_early_message =
     ''Perfect! I'' @ [CHR 0x27] @ ''ll create the job description now. '' @ rocket"

record ai_response =
  ar_message :: string
  ar_isComplete :: bool
  ar_completionPercentage :: nat

text \<open>
  The list of the vacancy's entries in the prompt for the next question: the entries
  that hold something are printed, an array through \<open>join\<close>.  \<open>Object.entries\<close> throws
  on \<open>null\<close> and \<open>undefined\<close>.
\<close>

definition listed :: "jsval \<Rightarrow> bool" where
  "listed v =
     (v \<noteq> JNull \<and> v \<noteq> JUndefined
      \<and> (case v of JArr xs \<Rightarrow> 0 < length xs | _ \<Rightarrow> True)
      \<and> (case v of JStr s \<Rightarrow> js_trim s \<noteq> [] | _ \<Rightarrow> True))"

definition interpolate_entry :: "jsval \<Rightarrow> unit outcome" where
  "interpolate_entry v = (if is_array v then interpolate_joined v else interpolate v)"

definition response_prompt :: "jsval \<Rightarrow> unit outcome" where
  "response_prompt currentVacancy =
     then_do (object_entries currentVacancy) (\<lambda>entries.
       for_each interpolate_entry (filter listed (map snd entries)))"

text \<open>
  \<open>generateResponse\<close>.  \<open>intentApi\<close> and \<open>questionApi\<close> are the capability's answers to
  the two prompts it may send.  The message for a finished collection prints the
  title, and the prompt for the question is built outside the \<open>try\<close>.
\<close>

definition generateResponse ::
  "string \<Rightarrow> jsval \<Rightarrow> string option \<Rightarrow> string option \<Rightarrow> ai_response outcome" where
  "generateResponse userMessage currentVacancy intentApi questionApi =
     then_do (getNextMissingField currentVacancy) (\<lambda>nextField.
     (let totalFields = (15::nat);
          filledFields = totalFields - (if nextField \<noteq> None then 1 else 0);
          completionPercentage = (200 * filledFields + totalFields) div (2 * totalFields)
      in then_do (isVacancyComplete currentVacancy) (\<lambda>hasMinimumInfo.
         case nextField of
           None \<Rightarrow>
             then_do (get_prop currentVacancy ''title'') (\<lambda>title.
             then_do (String_js title) (\<lambda>printed.
               Returns \<lparr>ar_message = all_collected_message printed, ar_isComplete = True,
                        ar_completionPercentage = 100\<rparr>))
         | Some field \<Rightarrow>
             then_do
               (if hasMinimumInfo \<and> userMessage \<noteq> []
                then try_catch
                       (then_do (callAPI intentApi) (\<lambda>intentResponse.
                          Returns (str_includes (js_trim (toLowerCase intentResponse)) ''yes'')))
                       (\<lambda>error. Returns False)
                else Returns False)
               (\<lambda>userWantsToGenerate.
                  if hasMinimumInfo \<and> userWantsToGenerate
                  then Returns \<lparr>ar_message = generate_early_message, ar_isComplete = True,
                                ar_completionPercentage = completionPercentage\<rparr>
                  else then_do (response_prompt currentVacancy) (\<lambda>responsePrompt.
                         try_catch
                           (then_do (callAPI questionApi) (\<lambda>response.
                              Returns \<lparr>ar_message = response, ar_isComplete = False,
                                       ar_completionPercentage = completionPercentage\<rparr>))
                           (\<lambda>error.
                              Returns \<lparr>ar_message =
                                         (case map_of fallbackQuestions field of
                                            Some q \<Rightarrow> q
                                          | None \<Rightarrow> ''Tell me about the ''
                                              @ getFieldDescription field
                                              @ '' for this position.''),
                                       ar_isComplete = False,
                                       ar_completionPercentage = completionPercentage\<rparr>))))))"

text \<open>
  \<open>generateJobDescription\<close> of this class.  The prompt's text is not modelled, only
  whether building it throws: every interpolated value is printed, a truthy
  \<open>coreSkills\<close> or \<open>secondarySkills\<close> needs a \<open>join\<close>, and a truthy \<open>languages\<close> of
  positive \<open>length\<close> needs a \<open>map\<close> and elements to read from.  The call to the
  capability sits in a \<open>try\<close>; when it fails the static text is returned.
\<close>

text \<open>\<open>n > 0\<close>.\<close>

fun positive :: "jsval \<Rightarrow> bool outcome" where
  "positive (JNum n) = Returns (0 < n)"
| "positive (JBool b) = Returns b"
| "positive JNaN = Returns False"
| "positive JNull = Returns False"
| "positive JUndefined = Returns False"
| "positive (JStr s) = (if s = [] then Returns False else Unmodelled)"
| "positive v = Unmodelled"

text \<open>
  \<^verbatim>\<open>lang => typeof lang === 'string' ? lang : `${lang.language} (${lang.level || lang.proficiency})`\<close>.
\<close>

definition language_text :: "jsval \<Rightarrow> unit outcome" where
  "language_text lang =
     (case lang of
        JStr s \<Rightarrow> Returns ()
      | _ \<Rightarrow>
          then_do (interpolate_prop lang ''language'') (\<lambda>u.
          then_do (get_prop lang ''level'') (\<lambda>level.
            if truthy level then interpolate level else interpolate_prop lang ''proficiency'')))"

definition languages_text :: "jsval \<Rightarrow> unit outcome" where
  "languages_text vacancy =
     then_do (get_prop vacancy ''languages'') (\<lambda>languages.
       if \<not> truthy languages then Returns ()
       else then_do (get_prop languages ''length'') (\<lambda>n.
            then_do (positive n) (\<lambda>pos.
              if \<not> pos then Returns ()
              else (case languages of
                      JArr ls \<Rightarrow> for_each language_text ls
                    | _ \<Rightarrow> Throws TypeError))))"

definition salary_text :: "jsval \<Rightarrow> unit outcome" where
  "salary_text vacancy =
     then_do (get_prop vacancy ''salaryExpectations'') (\<lambda>se.
     then_do (if nullish se then Returns JUndefined else get_prop se ''min'') (\<lambda>mn.
       if \<not> truthy mn then Returns ()
       else then_do (interpolate mn) (\<lambda>u.
            then_do (interpolate_or se ''max'') (\<lambda>u.
            interpolate_or se ''currency''))))"

definition description_prompt :: "jsval \<Rightarrow> unit outcome" where
  "description_prompt vacancy =
     then_do (interpolate_prop vacancy ''title'') (\<lambda>u.
     then_do (interpolate_or vacancy ''companyType'') (\<lambda>u.
     then_do (interpolate_prop vacancy ''domain'') (\<lambda>u.
     then_do (interpolate_prop vacancy ''department'') (\<lambda>u.
     then_do (interpolate_joined_or vacancy ''coreSkills'') (\<lambda>u.
     then_do (interpolate_joined_or vacancy ''secondarySkills'') (\<lambda>u.
     then_do (interpolate_or vacancy ''overallExperiencesFrom'') (\<lambda>u.
     then_do (interpolate_or vacancy ''overallExperiencesTo'') (\<lambda>u.
     then_do (languages_text vacancy) (\<lambda>u.
     then_do (interpolate_or vacancy ''locationType'') (\<lambda>u.
     then_do (interpolate_or vacancy ''employmentType'') (\<lambda>u.
     then_do (salary_text vacancy) (\<lambda>u.
     then_do (interpolate_or vacancy ''description'') (\<lambda>u.
     then_do (interpolate_or vacancy ''additionalInformation'') (\<lambda>u.
     then_do (interpolate_prop vacancy ''title'') (\<lambda>u.
     then_do (interpolate_prop vacancy ''domain'') (\<lambda>u.
     interpolate_prop vacancy ''companyType''))))))))))))))))"

text \<open>\<open>${v || fallback}\<close> as the text it gives.\<close>

definition print_or :: "jsval \<Rightarrow> string \<Rightarrow> string outcome" where
  "print_or v fallback = (if truthy v then String_js v else Returns fallback)"

definition fallback_description :: "jsval \<Rightarrow> string outcome" where
  "fallback_description vacancy =
     then_do (get_prop vacancy ''title'') (\<lambda>title.
     then_do (print_or title ''Job Position'') (\<lambda>heading.
     then_do (get_prop vacancy ''overallExperiencesFrom'') (\<lambda>from.
     then_do (print_or from ''1'') (\<lambda>years.
     then_do (get_prop vacancy ''coreSkills'') (\<lambda>coreSkills.
     then_do (if truthy coreSkills
              then (case coreSkills of
                      JArr xs \<Rightarrow> join_js '', '' xs | _ \<Rightarrow> Throws TypeError)
              else Returns ''to be discussed'') (\<lambda>skills.
       Returns (''# '' @ heading
                @ [CHR 0x0A, CHR 0x0A] @ ''We are looking for a specialist with ''
                @ years
                @ ''+ years of experience.'' @ [CHR 0x0A, CHR 0x0A]
                @ ''Required skills: '' @ skills)))))))"

definition generateJobDescription :: "jsval \<Rightarrow> string option \<Rightarrow> string outcome" where
  "generateJobDescription vacancy generationApi =
     then_do (description_prompt vacancy) (\<lambda>u.
       try_catch (callAPI generationApi) (\<lambda>error. fallback_description vacancy))"

text \<open>
  \<open>sendToWebhook\<close>.  The sink either rejects the request, or answers with a status
  (\<open>ok\<close> or not) and a body that is JSON or not.  Every failure is logged and rethrown.
\<close>

datatype webhook_reply = FetchFailed | HttpAnswer bool nat "jsval option"

definition sendToWebhook :: "jsval \<Rightarrow> string \<Rightarrow> webhook_reply \<Rightarrow> jsval outcome" where
  "sendToWebhook vacancy jobDescription sink =
     then_do (get_prop vacancy ''title'') (\<lambda>title.
       try_catch
         (case sink of
            FetchFailed \<Rightarrow> Throws (Error ''fetch failed'')
          | HttpAnswer ok code body \<Rightarrow>
              if \<not> ok then Throws (Error (''Webhook responded with status: '' @ digits code))
              else (case body of None \<Rightarrow> Throws SyntaxError
                    | Some responseData \<Rightarrow> Returns responseData))
         (\<lambda>error. Throws error))"

text \<open>The session and the answer of the route of this variant.\<close>

record chat_session =
  cs_id :: string
  cs_history :: "(string \<times> string) list"
  cs_vacancy :: jsval
  cs_status :: string
  cs_webhookResponse :: jsval
  cs_webhookSuccess :: "bool option"

record chat_body =
  cb_sessionId :: string
  cb_message :: string
  cb_isComplete :: bool
  cb_vacancy :: jsval
  cb_jobDescription :: "string option"
  cb_webhookSuccess :: "bool option"
  cb_webhookResponse :: "jsval option"
  cb_completionPercentage :: nat

datatype chat_reply = Ok chat_body | InternalError

definition welcomeMessage :: string where
  "welcomeMessage =
     [CHR 0xF0, CHR 0x9F, CHR 0x91, CHR 0x8B] @ '' Hello! I'' @ [CHR 0x27]
     @ ''m an AI recruiter, and I'' @ [CHR 0x27]
     @ ''ll help you create the perfect job vacancy.'' @ [CHR 0x0A, CHR 0x0A]
     @ ''Tell me about the position you'' @ [CHR 0x27]
     @ ''re looking for. You can describe everything you know - job title, requirements, skills, experience level. I'' @ [CHR 0x27]
     @ ''ll analyze everything and ask follow-up questions to complete the vacancy.''"

definition webhook_ok_note :: string where
  "webhook_ok_note =
     [CHR 0x0A, CHR 0x0A, CHR 0xE2, CHR 0x9C, CHR 0x85]
     @ '' **Position successfully created in the system!**''"

definition webhook_failed_note :: string where
  "webhook_failed_note =
     [CHR 0x0A, CHR 0x0A, CHR 0xE2, CHR 0x9A, CHR 0xA0, CHR 0xEF, CHR 0xB8, CHR 0x8F]
     @ '' **Position created locally but failed to sync with main system.**''"

definition generation_failed_note :: string where
  "generation_failed_note =
     [CHR 0x0A, CHR 0x0A, CHR 0xE2, CHR 0x9A, CHR 0xA0, CHR 0xEF, CHR 0xB8, CHR 0x8F]
     @ '' Job description generation failed. Please try again.''"

text \<open>
  The block \<^verbatim>\<open>if (aiResponse.isComplete) { try { ... } catch (error) { ... } }\<close>:
  the description is generated, the sink is called inside a \<open>try\<close> of its own, and
  the answer carries the flag.  Only a failing generation reaches the outer \<open>catch\<close>.
\<close>

definition finish_turn ::
  "chat_session \<Rightarrow> ai_response \<Rightarrow> string option \<Rightarrow> webhook_reply
     \<Rightarrow> (chat_session \<times> chat_reply) outcome" where
  "finish_turn session aiResponse generationApi sink =
     try_catch
       (then_do (generateJobDescription (cs_vacancy session) generationApi) (\<lambda>jobDescription.
        then_do
          (try_catch
             (then_do (sendToWebhook (cs_vacancy session) jobDescription sink)
                (\<lambda>webhookResponse. Returns (True, webhookResponse)))
             (\<lambda>webhookError. Returns (False, JNull)))
          (\<lambda>(webhookSuccess, webhookResponse).
             (let webhookStatus = (if webhookSuccess then webhook_ok_note else webhook_failed_note);
                  finalMessage = ar_message aiResponse @ [CHR 0x0A, CHR 0x0A]
                                 @ ''**Generated Job Description:**'' @ [CHR 0x0A, CHR 0x0A]
                                 @ jobDescription @ webhookStatus
              in Returns
                   (session\<lparr>cs_history := cs_history session @ [(''assistant'', finalMessage)],
                            cs_status := ''completed'',
                            cs_webhookResponse := webhookResponse,
                            cs_webhookSuccess := Some webhookSuccess\<rparr>,
                    Ok \<lparr>cb_sessionId = cs_id session, cb_message = finalMessage,
                        cb_isComplete = True, cb_vacancy = cs_vacancy session,
                        cb_jobDescription = Some jobDescription,
                        cb_webhookSuccess = Some webhookSuccess,
                        cb_webhookResponse = Some webhookResponse,
                        cb_completionPercentage = 100\<rparr>)))))
       (\<lambda>error.
          Returns
            (session\<lparr>cs_history := cs_history session @ [(''assistant'', ar_message aiResponse)],
                     cs_status := ''completed''\<rparr>,
             Ok \<lparr>cb_sessionId = cs_id session,
                 cb_message = ar_message aiResponse @ generation_failed_note,
                 cb_isComplete = True, cb_vacancy = cs_vacancy session,
                 cb_jobDescription = None, cb_webhookSuccess = None,
                 cb_webhookResponse = None,
                 cb_completionPercentage = ar_completionPercentage aiResponse\<rparr>))"

text \<open>
  The route \<open>POST /api/recruiter/chat\<close> of this variant on the session it found or
  created.  An absent message is the empty string.  Whatever is thrown outside the
  inner \<open>try\<close> blocks ends in the route's own \<open>catch\<close> and status 500; the session
  keeps what was stored before.
\<close>

definition recorded :: "chat_session \<Rightarrow> string \<Rightarrow> chat_session" where
  "recorded session message =
     (if message \<noteq> []
      then session\<lparr>cs_history := cs_history session @ [(''user'', message)]\<rparr>
      else session)"

definition analyze_turn ::
  "chat_session \<Rightarrow> string \<Rightarrow> string option \<Rightarrow> ai_reply \<Rightarrow> regex_matches
     \<Rightarrow> chat_session outcome" where
  "analyze_turn session message skipApi extraction m =
     (if message \<noteq> []
      then then_do (analyzeMessage message (cs_vacancy session) skipApi extraction m)
             (\<lambda>analysisResult.
                if a_success analysisResult
                then Returns ((recorded session message)
                                \<lparr>cs_vacancy := a_updatedVacancy analysisResult\<rparr>)
                else Returns (recorded session message))
      else Returns session)"

definition chat_route ::
  "chat_session \<Rightarrow> string \<Rightarrow> string option \<Rightarrow> ai_reply \<Rightarrow> regex_matches \<Rightarrow> string option
     \<Rightarrow> string option \<Rightarrow> string option \<Rightarrow> webhook_reply
     \<Rightarrow> (chat_session \<times> chat_reply) outcome" where
  "chat_route session message skipApi extraction m intentApi questionApi generationApi sink =
     (if cs_history session = [] \<and> message = []
      then Returns
             (session\<lparr>cs_history := [(''assistant'', welcomeMessage)]\<rparr>,
              Ok \<lparr>cb_sessionId = cs_id session, cb_message = welcomeMessage,
                  cb_isComplete = False, cb_vacancy = cs_vacancy session,
                  cb_jobDescription = None, cb_webhookSuccess = None,
                  cb_webhookResponse = None, cb_completionPercentage = 0\<rparr>)
      else (case analyze_turn session message skipApi extraction m of
              Unmodelled \<Rightarrow> Unmodelled
            | Throws error \<Rightarrow> Returns (recorded session message, InternalError)
            | Returns s1 \<Rightarrow>
                (case generateResponse message (cs_vacancy s1) intentApi questionApi of
                   Unmodelled \<Rightarrow> Unmodelled
                 | Throws error \<Rightarrow> Returns (s1, InternalError)
                 | Returns aiResponse \<Rightarrow>
                     if ar_isComplete aiResponse
                     then finish_turn s1 aiResponse generationApi sink
                     else Returns
                            (s1\<lparr>cs_history :=
                                   cs_history s1 @ [(''assistant'', ar_message aiResponse)],
                                cs_status := ''collecting''\<rparr>,
                             Ok \<lparr>cb_sessionId = cs_id s1, cb_message = ar_message aiResponse,
                                 cb_isComplete = False, cb_vacancy = cs_vacancy s1,
                                 cb_jobDescription = None, cb_webhookSuccess = None,
                                 cb_webhookResponse = None,
                                 cb_completionPercentage =
                                   ar_completionPercentage aiResponse\<rparr>))))"

section \<open>The notions of the specification, and example records\<close>

text \<open>
  Filled, in the words of the data model: \<open>null\<close>, the empty array and the empty string
  are the unfilled sentinels (\<open>undefined\<close> is an absent value); an explicit \<open>false\<close> or
  \<open>0\<close> is filled.
\<close>

definition is_filled :: "jsval \<Rightarrow> bool" where
  "is_filled v = (v \<noteq> JNull \<and> v \<noteq> JUndefined \<and> v \<noteq> JArr [] \<and> v \<noteq> JStr [])"

text \<open>A vacancy whose title holds three spaces.\<close>

definition blank_title_vacancy :: jsval where
  "blank_title_vacancy = JObj [(''title'', JStr ''   ''), (''department'', JNull)]"

text \<open>
  An all-unfilled record, as the specification words unfilled: every field of the
  schema is unfilled in it.
\<close>

definition all_unfilled :: "field list \<Rightarrow> jsval \<Rightarrow> bool" where
  "all_unfilled schema record =
     list_all (\<lambda>f. spec_unfilled schema (name f) (value_at record (name f))) schema"

text \<open>The template of the first variant with a title of three spaces.\<close>

definition blank_title_template :: jsval where
  "blank_title_template =
     JObj [(''title'', JStr ''   ''), (''department'', JNull),
           (''location'', JObj [(''type'', JNull), (''city'', JNull)]),
           (''domain'', JNull),
           (''salary'', JObj [(''from'', JNull), (''to'', JNull)]),
           (''experience'', JObj [(''min'', JNull), (''max'', JNull)]),
           (''responsibilities'', JArr []), (''skills'', JArr []),
           (''secondary_skills'', JArr []), (''soft_skills'', JArr []),
           (''benefits'', JArr []), (''is_remote'', JNull)]"

text \<open>A fresh session, and an answer of the capability that asks back and changes the title.\<close>

definition clarify_session :: session where
  "clarify_session = \<lparr>sid = ''1730000000000'', conversationHistory = [],
      s_vacancy = getVacancyTemplate, s_status = ''collecting'', lastQuestionField = JNull\<rparr>"

definition clarify_answer :: ai_reply where
  "clarify_answer = Parsed (JObj [(''status'', JStr ''CLARIFICATION_NEEDED''),
      (''updatedVacancy'', JObj [(''title'', JStr ''Chef'')]),
      (''commentary'', JStr ''Which role do you mean?'')])"

text \<open>A vacancy with every mandatory field given, the experience being zero years.\<close>

definition zero_experience_vacancy :: jsval where
  "zero_experience_vacancy =
     JObj [(''title'', JStr ''Intern''), (''department'', JStr ''IT''),
           (''domain'', JStr ''Education''), (''coreSkills'', JArr [JStr ''React'']),
           (''overallExperiencesFrom'', JNum 0)]"

text \<open>A vacancy whose next missing field is \<open>coreSkills\<close>.\<close>

definition skills_pending_vacancy :: jsval where
  "skills_pending_vacancy =
     JObj [(''title'', JStr ''Chef''), (''department'', JStr ''Operations''),
           (''domain'', JStr ''Other''), (''coreSkills'', JArr []),
           (''secondarySkills'', JArr [])]"

text \<open>
  A record with a title and one skill, and an extraction that holds an empty skill
  list; no pattern of the heuristic layer matches the message.
\<close>

definition react_vacancy :: jsval where
  "react_vacancy = JObj [(''title'', JStr ''Designer''), (''coreSkills'', JArr [JStr ''React''])]"

definition empty_skills_reply :: ai_reply where
  "empty_skills_reply = Parsed (JObj [(''coreSkills'', JArr [])])"

definition no_matches :: regex_matches where
  "no_matches = \<lparr>salaryMatch = None, expMatch = None\<rparr>"

text \<open>A record that asks for the salary next; the group holds a maximum only.\<close>

definition salary_pending_vacancy :: "(string \<times> jsval) list" where
  "salary_pending_vacancy =
     [(''title'', JStr ''Frontend Developer''), (''department'', JStr ''IT''),
      (''domain'', JStr ''SaaS''), (''coreSkills'', JArr [JStr ''React'']),
      (''overallExperiencesFrom'', JNum 3),
      (''salaryExpectations'',
         JObj [(''min'', JNull), (''max'', JNum 5000), (''currency'', JStr ''USD'')])]"

text \<open>
  The same record after a turn in which the capability reported the salary as the
  text \<open>negotiable\<close>.
\<close>

definition negotiable_reply :: ai_reply where
  "negotiable_reply = Parsed (JObj [(''salaryExpectations'', JStr ''negotiable'')])"

definition negotiable_salary_vacancy :: jsval where
  "negotiable_salary_vacancy =
     JObj [(''title'', JStr ''Frontend Developer''), (''department'', JStr ''IT''),
           (''domain'', JStr ''SaaS''), (''coreSkills'', JArr [JStr ''React'']),
           (''overallExperiencesFrom'', JNum 3),
           (''salaryExpectations'', JStr ''negotiable'')]"

text \<open>The keys the heuristic layer assigns.\<close>

definition heuristic_keys :: "string list" where
  "heuristic_keys =
     [''department'', ''salaryExpectations'', ''locationType'', ''remote'', ''employmentType'',
      ''overallExperiencesFrom'', ''coreSkills'']"


definition has_skills :: "jsval \<Rightarrow> bool" where
  "has_skills v =
     (case get_prop v ''coreSkills'' of
        Returns cs \<Rightarrow> truthy cs \<and> get_prop cs ''length'' \<noteq> Returns (JNum 0)
      | _ \<Rightarrow> False)"



text \<open>A session whose record has every field of the selector's list filled.\<close>

definition complete_vacancy :: jsval where
  "complete_vacancy =
     JObj [(''title'', JStr ''Frontend Developer''), (''department'', JStr ''IT''),
           (''domain'', JStr ''SaaS''), (''coreSkills'', JArr [JStr ''React'']),
           (''overallExperiencesFrom'', JNum 3),
           (''salaryExpectations'',
              JObj [(''min'', JNum 3000), (''max'', JNum 5000), (''currency'', JStr ''USD'')]),
           (''locationType'', JStr ''remote''), (''employmentType'', JStr ''full-time''),
           (''companyType'', JStr ''Product''), (''secondarySkills'', JArr [JStr ''Redux'']),
           (''overallExperiencesTo'', JNum 5), (''languages'', JArr [JStr ''English'']),
           (''education'', JBool False), (''isTestsTask'', JBool False),
           (''description'', JStr ''Build the web client.'')]"

definition complete_session :: chat_session where
  "complete_session =
     \<lparr>cs_id = ''1730000000001'', cs_history = [(''assistant'', ''Anything else?'')],
      cs_vacancy = complete_vacancy, cs_status = ''collecting'',
      cs_webhookResponse = JUndefined, cs_webhookSuccess = None\<rparr>"

section \<open>Properties\<close>

lemma get_prop_present:
  "plain_key k \<Longrightarrow> \<not> nullish v \<Longrightarrow> \<exists>w. get_prop v k = Returns w"
  by (cases v) (auto simp: plain_key_def builtin_names_def not_own_def nullish_def split: option.splits)

lemma get_prop_plain: "plain_key k \<Longrightarrow> truthy v \<Longrightarrow> \<exists>w. get_prop v k = Returns w"
  by (rule get_prop_present) (auto simp: nullish_def)

lemma path_step_returns: "plain_key part \<Longrightarrow> \<exists>w. path_step acc part = Returns w"
proof (cases "truthy acc")
  case True
  assume "plain_key part"
  with True obtain w where "get_prop acc part = Returns w"
    using get_prop_plain by blast
  then show ?thesis
    using True by (simp add: path_step_def)
next
  case False
  then show ?thesis
    by (simp add: path_step_def)
qed

lemma reduce_path_returns: "list_all plain_key ps \<Longrightarrow> \<exists>w. reduce_path acc ps = Returns w"
proof (induction ps arbitrary: acc)
  case Nil
  show ?case by simp
next
  case (Cons p ps)
  then have "plain_key p" and ps: "list_all plain_key ps" by simp_all
  then obtain a where "path_step acc p = Returns a"
    using path_step_returns by blast
  then show ?case
    using Cons.IH [OF ps, of a] by simp
qed

lemma getValueByPath_returns:
  "String_js path = Returns s \<Longrightarrow> list_all plain_key (split_dot s) \<Longrightarrow>
   \<exists>w. getValueByPath obj path = Returns w"
  by (simp add: getValueByPath_def reduce_path_returns)

lemma getValueByPath_value_at:
  "plain_path p \<Longrightarrow> getValueByPath obj (JStr p) = Returns (value_at obj p)"
  using getValueByPath_returns [of "JStr p" p obj] by (auto simp: value_at_def plain_path_def)

lemma reduce_path_undefined: "reduce_path JUndefined ps = Returns JUndefined"
  by (induction ps) (simp_all add: path_step_def)

lemma reduce_path_missing:
  "list_all plain_key ps \<Longrightarrow> \<not> path_present v ps \<Longrightarrow> reduce_path v ps = Returns JUndefined"
proof (induction ps arbitrary: v)
  case Nil
  then show ?case by simp
next
  case (Cons p ps)
  then have p: "plain_key p" and ps: "list_all plain_key ps" by simp_all
  show ?case
  proof (cases "truthy v")
    case False
    then show ?thesis
      by (simp add: path_step_def reduce_path_undefined)
  next
    case True
    then obtain w where w: "get_prop v p = Returns w"
      using get_prop_plain [OF p] by blast
    show ?thesis
    proof (cases "w = JUndefined")
      case True
      with w \<open>truthy v\<close> show ?thesis
        by (simp add: path_step_def reduce_path_undefined)
    next
      case False
      with w Cons.prems have "\<not> path_present w ps"
        by simp
      then have "reduce_path w ps = Returns JUndefined"
        by (rule Cons.IH [OF ps])
      with w False \<open>truthy v\<close> show ?thesis
        by (simp add: path_step_def)
    qed
  qed
qed

text \<open>
  C10, amended.  For a path that \<open>String\<close> can print and none of whose segments is
  the name of a member of a built-in prototype, \<open>getValueByPath\<close> returns a value for
  every object.  It returns \<open>undefined\<close> when the object is \<open>null\<close> or \<open>undefined\<close>,
  and when some segment of the path is missing along the way.
\<close>

theorem getValueByPath_plain_total:
  assumes "String_js path = Returns s" and "list_all plain_key (split_dot s)"
  shows "(\<exists>w. getValueByPath obj path = Returns w) \<and>
   (obj = JNull \<or> obj = JUndefined \<longrightarrow> getValueByPath obj path = Returns JUndefined) \<and>
   (\<not> path_present obj (split_dot s) \<longrightarrow> getValueByPath obj path = Returns JUndefined)"
proof (intro conjI impI)
  show "\<exists>w. getValueByPath obj path = Returns w"
    using assms by (rule getValueByPath_returns)
next
  assume "obj = JNull \<or> obj = JUndefined"
  then show "getValueByPath obj path = Returns JUndefined"
    by (auto simp: getValueByPath_def)
next
  assume "\<not> path_present obj (split_dot s)"
  then show "getValueByPath obj path = Returns JUndefined"
    using assms by (simp add: getValueByPath_def reduce_path_missing)
qed

text \<open>The theorem on an absent object and on a record that lacks \<open>salary.to\<close>.\<close>

theorem getValueByPath_plain_total_witness:
  "getValueByPath JNull (JStr ''title'') = Returns JUndefined \<and>
   \<not> path_present (JObj [(''salary'', JObj [(''from'', JNum 10)])]) (split_dot ''salary.to'') \<and>
   getValueByPath (JObj [(''salary'', JObj [(''from'', JNum 10)])]) (JStr ''salary.to'')
     = Returns JUndefined"
proof -
  have m: "\<not> path_present (JObj [(''salary'', JObj [(''from'', JNum 10)])]) (split_dot ''salary.to'')"
    by code_simp
  have t: "String_js (JStr ''title'') = Returns ''title''"
    and s: "String_js (JStr ''salary.to'') = Returns ''salary.to''"
    by simp_all
  have pt: "list_all plain_key (split_dot ''title'')"
    and ps: "list_all plain_key (split_dot ''salary.to'')"
    by code_simp+
  show ?thesis
    using m getValueByPath_plain_total [OF t pt, of JNull]
      getValueByPath_plain_total [OF s ps, of "JObj [(''salary'', JObj [(''from'', JNum 10)])]"]
    by blast
qed

text \<open>
  C10 as stated fails on a path that is an object with a property \<open>toString\<close> of its
  own: \<open>String(path)\<close> finds nothing to call and throws.
\<close>

theorem getValueByPath_throws_counterexample:
  "getValueByPath (JObj [(''title'', JStr ''Chef'')]) (JObj [(''toString'', JNum 1)])
     = Throws TypeError"
  by (simp add: getValueByPath_def)

lemma indexOf_notin: "x \<notin> set xs \<Longrightarrow> indexOf xs x = - 1"
  by (induction xs) (auto simp: Let_def)

lemma indexOf_in: "x \<in> set xs \<Longrightarrow> 0 \<le> indexOf xs x \<and> nat (indexOf xs x) < length xs \<and> xs ! nat (indexOf xs x) = x"
proof (induction xs)
  case Nil then show ?case by simp
next
  case (Cons y ys)
  show ?case
  proof (cases "y = x")
    case True then show ?thesis by simp
  next
    case False
    with Cons.prems have "x \<in> set ys" by simp
    from Cons.IH [OF this] False show ?thesis
      by (auto simp: Let_def nat_add_distrib)
  qed
qed

lemma indexOf_nth: "distinct xs \<Longrightarrow> k < length xs \<Longrightarrow> indexOf xs (xs ! k) = int k"
proof (induction xs arbitrary: k)
  case Nil then show ?case by simp
next
  case (Cons y ys)
  show ?case
  proof (cases k)
    case 0 then show ?thesis by simp
  next
    case (Suc j)
    with Cons.prems have j: "j < length ys" "distinct ys" "y \<noteq> ys ! j"
      by auto
    from Cons.IH [OF j(2) j(1)] j(3) Suc show ?thesis
      by (simp add: Let_def)
  qed
qed

lemma js_slice_tail: "0 \<le> i \<Longrightarrow> js_slice xs i (int (length xs)) = drop (nat i) xs"
  by (auto simp: js_slice_def slice_index_def Let_def min_def)

lemma js_slice_head: "0 \<le> i \<Longrightarrow> js_slice xs 0 i = take (nat i) xs"
  by (auto simp: js_slice_def slice_index_def Let_def min_def)

lemma drop_take_rotate: "n \<le> length xs \<Longrightarrow> drop n xs @ take n xs = rotate n xs"
proof (cases "n = length xs")
  case True then show ?thesis by simp
next
  case False
  assume "n \<le> length xs"
  with False have "n mod length xs = n" by simp
  then show ?thesis using rotate_drop_take [of n xs] by simp
qed

lemma searchOrder_ring:
  assumes "[] \<notin> set names"
  shows "(let lastIndex = (if truthy l then (case l of JStr s \<Rightarrow> indexOf names s | _ \<Rightarrow> - 1) else - 1)
          in js_slice names (lastIndex + 1) (int (length names)) @ js_slice names 0 (lastIndex + 1))
         = ring_order names l"
proof (cases l)
  case (JStr s)
  show ?thesis
  proof (cases "s \<in> set names")
    case True
    then have s: "s \<noteq> []" using assms by auto
    from indexOf_in [OF True] have i: "0 \<le> indexOf names s" "nat (indexOf names s) < length names"
      by auto
    then have n: "nat (indexOf names s + 1) = Suc (nat (indexOf names s))" by simp
    have "js_slice names (indexOf names s + 1) (int (length names)) @ js_slice names 0 (indexOf names s + 1)
          = rotate (Suc (nat (indexOf names s))) names"
      using i by (simp add: js_slice_tail js_slice_head n drop_take_rotate del: rotate_Suc)
    with JStr True s show ?thesis
      by (simp add: ring_order_def Let_def del: rotate_Suc)
  next
    case False
    then show ?thesis using JStr
      by (simp add: ring_order_def Let_def indexOf_notin js_slice_tail js_slice_head)
  qed
qed (simp_all add: ring_order_def Let_def js_slice_tail js_slice_head)

lemma search_fields_find:
  "list_all plain_path order \<Longrightarrow>
   search_fields flds v order =
     Returns (case List.find (\<lambda>p. needs_filling (value_at v p)) order of
                None \<Rightarrow> None | Some p \<Rightarrow> List.find (\<lambda>f. name f = p) flds)"
  by (induction order) (simp_all add: getValueByPath_value_at)

lemma ring_order_set: "set (ring_order names l) = set names"
  by (cases l) (simp_all add: ring_order_def)

lemma findNextFieldToFill_spec:
  assumes "[] \<notin> set (map name flds)" and "list_all plain_path (map name flds)"
  shows "findNextFieldToFill flds v l =
     Returns (case selectNext_spec (\<lambda>p. needs_filling) (map name flds) v l of
                None \<Rightarrow> None | Some p \<Rightarrow> List.find (\<lambda>f. name f = p) flds)"
proof -
  have "list_all plain_path (ring_order (map name flds) l)"
    using assms(2) unfolding list_all_iff ring_order_set .
  then show ?thesis
    using searchOrder_ring [OF assms(1), of l]
    by (simp add: findNextFieldToFill_def selectNext_spec_def search_fields_find Let_def)
qed

lemma find_field_by_name:
  "p \<in> set (map name flds) \<Longrightarrow> \<exists>f. List.find (\<lambda>f. name f = p) flds = Some f \<and> name f = p"
  by (induction flds) auto

lemma findNextFieldToFill_name:
  assumes "[] \<notin> set (map name flds)" and pl: "list_all plain_path (map name flds)"
  shows "\<exists>r. findNextFieldToFill flds v l = Returns r \<and>
     map_option name r = selectNext_spec (\<lambda>p. needs_filling) (map name flds) v l"
proof (cases "selectNext_spec (\<lambda>p. needs_filling) (map name flds) v l")
  case None
  then show ?thesis using findNextFieldToFill_spec [OF assms, of v l] by simp
next
  case (Some p)
  then have "p \<in> set (ring_order (map name flds) l)"
    by (auto simp: selectNext_spec_def find_Some_iff)
  then have "p \<in> set (map name flds)" by (simp only: ring_order_set)
  from find_field_by_name [OF this] obtain f where "List.find (\<lambda>f. name f = p) flds = Some f" "name f = p"
    by blast
  with Some show ?thesis using findNextFieldToFill_spec [OF assms, of v l] by simp
qed

lemma builder_names: "map name vacancyBuilder_fields =
  [''title'', ''department'', ''location.type'', ''location.city'', ''domain'', ''salary.from'',
   ''salary.to'', ''experience.min'', ''experience.max'', ''responsibilities'', ''skills'',
   ''secondary_skills'', ''soft_skills'', ''benefits'', ''is_remote'']"
  by (simp add: vacancyBuilder_fields_def)

lemma builder_names_nonempty: "[] \<notin> set (map name vacancyBuilder_fields)"
  by (simp add: builder_names)

lemma builder_names_distinct: "distinct (map name vacancyBuilder_fields)"
  by (simp add: builder_names)

lemma builder_names_plain: "list_all plain_path (map name vacancyBuilder_fields)"
  by code_simp

text \<open>
  C3, amended.  \<open>findNextFieldToFill\<close> never throws, and the field it returns is the
  first one, in the field list rotated to start right after \<open>lastFieldName\<close>, whose
  value is exactly \<open>null\<close>, an empty array or the empty string; it returns \<open>null\<close>
  when there is none.  A whitespace-only string, \<open>undefined\<close> and \<open>false\<close> count as
  filled for every field.
\<close>

theorem findNextFieldToFill_ring_search:
  "\<exists>r. findNextFieldToFill vacancyBuilder_fields vacancy lastFieldName = Returns r \<and>
        map_option name r =
          selectNext_spec (\<lambda>p. needs_filling) (map name vacancyBuilder_fields) vacancy lastFieldName"
  by (rule findNextFieldToFill_name [OF builder_names_nonempty builder_names_plain])

text \<open>The theorem on the template, after the title was asked: the department is next.\<close>

theorem findNextFieldToFill_ring_search_witness:
  "\<exists>r. findNextFieldToFill vacancyBuilder_fields getVacancyTemplate (JStr ''title'') = Returns r \<and>
        map_option name r = Some ''department''"
proof -
  have "selectNext_spec (\<lambda>p. needs_filling) (map name vacancyBuilder_fields)
          getVacancyTemplate (JStr ''title'') = Some ''department''"
    by code_simp
  then show ?thesis
    using findNextFieldToFill_ring_search [of getVacancyTemplate "JStr ''title''"] by simp
qed

text \<open>
  C3 as stated fails on a whitespace-only string: the specification's selector asks for
  the title again, the code passes on to the department.
\<close>

theorem selectNext_whitespace_counterexample:
  "findNextFieldToFill vacancyBuilder_fields blank_title_vacancy JNull
     = Returns (Some \<lparr>name = ''department'', displayName = ''Department'', ftype = enum_t\<rparr>)
   \<and> selectNext_spec (spec_unfilled vacancyBuilder_fields) (map name vacancyBuilder_fields)
         blank_title_vacancy JNull = Some ''title''"
  by code_simp

lemma mod_lt: "(k::nat) < n \<Longrightarrow> m mod n < n"
proof -
  assume "k < n"
  then have "0 < n" by simp
  then show ?thesis by (rule mod_less_divisor)
qed

lemma find_all_hd: "xs \<noteq> [] \<Longrightarrow> \<forall>x\<in>set xs. P x \<Longrightarrow> List.find P xs = Some (hd xs)"
  by (cases xs) auto

lemma find_distinct_nth:
  "distinct (map name flds) \<Longrightarrow> j < length flds \<Longrightarrow>
   List.find (\<lambda>f. name f = name (flds ! j)) flds = Some (flds ! j)"
proof (induction flds arbitrary: j)
  case Nil then show ?case by simp
next
  case (Cons a flds)
  show ?case
  proof (cases j)
    case 0 then show ?thesis by simp
  next
    case (Suc i)
    with Cons.prems have i: "i < length flds" "distinct (map name flds)" by auto
    from Cons.prems Suc i have "name a \<noteq> name (flds ! i)"
      by (metis distinct.simps(2) list.simps(9) nth_map nth_mem length_map)
    with Cons.IH [OF i(2) i(1)] Suc show ?thesis by simp
  qed
qed

lemma next_on_unfilled:
  assumes d: "distinct (map name flds)" and ne: "[] \<notin> set (map name flds)"
    and pl: "list_all plain_path (map name flds)"
    and k: "k < length flds"
    and all: "\<forall>f\<in>set flds. needs_filling (value_at v (name f))"
  shows "findNextFieldToFill flds v (JStr (name (flds ! k)))
         = Returns (Some (flds ! (Suc k mod length flds)))"
proof -
  let ?names = "map name flds"
  have kn: "k < length ?names" using k by simp
  have nk: "?names ! k = name (flds ! k)" using k by simp
  have mem: "name (flds ! k) \<in> set ?names" using k by (metis kn nk nth_mem)
  have idx: "indexOf ?names (name (flds ! k)) = int k"
    using indexOf_nth [OF d kn] nk by simp
  have ro: "ring_order ?names (JStr (name (flds ! k))) = rotate (Suc k) ?names"
    using mem idx by (simp add: ring_order_def del: rotate_Suc)
  have nonempty: "rotate (Suc k) ?names \<noteq> []" using k by auto
  have allp: "\<forall>p\<in>set (rotate (Suc k) ?names). needs_filling (value_at v p)"
    using all by auto
  have j: "Suc k mod length flds < length flds" using k by (rule mod_lt)
  have hd: "hd (rotate (Suc k) ?names) = name (flds ! (Suc k mod length flds))"
  proof -
    have "flds \<noteq> []" using k by auto
    then show ?thesis
      using hd_rotate_conv_nth [of ?names "Suc k"] j by (simp del: rotate_Suc)
  qed
  have "selectNext_spec (\<lambda>p. needs_filling) ?names v (JStr (name (flds ! k)))
        = Some (name (flds ! (Suc k mod length flds)))"
    unfolding selectNext_spec_def ro using find_all_hd [OF nonempty allp] hd by simp
  then show ?thesis
    using findNextFieldToFill_spec [OF ne pl, of v "JStr (name (flds ! k))"]
      find_distinct_nth [OF d j] by simp
qed

lemma ring_visits_nth:
  assumes d: "distinct (map name flds)" and ne: "[] \<notin> set (map name flds)"
    and pl: "list_all plain_path (map name flds)"
    and all: "\<forall>f\<in>set flds. needs_filling (value_at v (name f))"
  shows "k < length flds \<Longrightarrow>
    length (ring_visits flds v (JStr (name (flds ! k))) n) = n \<and>
    (\<forall>i<n. ring_visits flds v (JStr (name (flds ! k))) n ! i
            = name (flds ! ((Suc k + i) mod length flds)))"
proof (induction n arbitrary: k)
  case 0
  then show ?case by simp
next
  case (Suc n)
  let ?N = "length flds"
  let ?k' = "Suc k mod ?N"
  have k': "?k' < ?N" using Suc.prems by (rule mod_lt)
  have step: "ring_visits flds v (JStr (name (flds ! k))) (Suc n)
              = name (flds ! ?k') # ring_visits flds v (JStr (name (flds ! ?k'))) n"
    using next_on_unfilled [OF d ne pl Suc.prems all] by simp
  from Suc.IH [OF k'] have len: "length (ring_visits flds v (JStr (name (flds ! ?k'))) n) = n"
    and nth: "\<And>i. i < n \<Longrightarrow> ring_visits flds v (JStr (name (flds ! ?k'))) n ! i
            = name (flds ! ((Suc ?k' + i) mod ?N))"
    by auto
  have modeq: "\<And>i. (Suc ?k' + i) mod ?N = (Suc k + Suc i) mod ?N"
    by (metis add_Suc add_Suc_right mod_add_left_eq)
  show ?case
  proof (intro conjI allI impI)
    show "length (ring_visits flds v (JStr (name (flds ! k))) (Suc n)) = Suc n"
      using step len by simp
  next
    fix i assume "i < Suc n"
    show "ring_visits flds v (JStr (name (flds ! k))) (Suc n) ! i
          = name (flds ! ((Suc k + i) mod ?N))"
    proof (cases i)
      case 0
      then show ?thesis using step by simp
    next
      case (Suc j)
      with \<open>i < Suc n\<close> have "j < n" by simp
      from nth [OF this] modeq [of j] Suc step show ?thesis by simp
    qed
  qed
qed

lemma ring_visits_rotate:
  assumes d: "distinct (map name flds)" and ne: "[] \<notin> set (map name flds)"
    and pl: "list_all plain_path (map name flds)"
    and all: "\<forall>f\<in>set flds. needs_filling (value_at v (name f))"
    and k: "k < length flds"
  shows "ring_visits flds v (JStr (name (flds ! k))) (length flds) = rotate (Suc k) (map name flds)"
proof (rule nth_equalityI)
  show "length (ring_visits flds v (JStr (name (flds ! k))) (length flds))
        = length (rotate (Suc k) (map name flds))"
    using ring_visits_nth [OF d ne pl all k, of "length flds"] by (simp del: rotate_Suc)
next
  fix i assume "i < length (ring_visits flds v (JStr (name (flds ! k))) (length flds))"
  then have i: "i < length flds"
    using ring_visits_nth [OF d ne pl all k, of "length flds"] by simp
  then have m: "(Suc k + i) mod length flds < length flds" by (rule mod_lt)
  have "rotate (Suc k) (map name flds) ! i = map name flds ! ((Suc k + i) mod length flds)"
    using nth_rotate [of i "map name flds" "Suc k"] i by (simp del: rotate_Suc)
  also have "\<dots> = name (flds ! ((Suc k + i) mod length flds))"
    using m by simp
  finally show "ring_visits flds v (JStr (name (flds ! k))) (length flds) ! i
        = rotate (Suc k) (map name flds) ! i"
    using ring_visits_nth [OF d ne pl all k, of "length flds"] i by simp
qed

text \<open>
  C9, amended.  On a record in which every field holds \<open>null\<close>, an empty array or the
  empty string, starting from \<open>lastAskedField = fields[k]\<close>, as many calls of the
  selector as there are fields, each taking the field returned before as the last
  asked one, return the field list rotated to start after \<open>fields[k]\<close>: every field
  once, none twice.
\<close>

theorem ring_coverage:
  assumes "k < length vacancyBuilder_fields"
    and "list_all (\<lambda>f. needs_filling (value_at vacancy (name f))) vacancyBuilder_fields"
  shows "ring_visits vacancyBuilder_fields vacancy (JStr (name (vacancyBuilder_fields ! k)))
           (length vacancyBuilder_fields)
         = rotate (Suc k) (map name vacancyBuilder_fields)
       \<and> distinct (ring_visits vacancyBuilder_fields vacancy
                     (JStr (name (vacancyBuilder_fields ! k))) (length vacancyBuilder_fields))
       \<and> set (ring_visits vacancyBuilder_fields vacancy
                (JStr (name (vacancyBuilder_fields ! k))) (length vacancyBuilder_fields))
         = set (map name vacancyBuilder_fields)"
proof -
  have "ring_visits vacancyBuilder_fields vacancy (JStr (name (vacancyBuilder_fields ! k)))
           (length vacancyBuilder_fields)
         = rotate (Suc k) (map name vacancyBuilder_fields)"
    using assms(2)
    by (intro ring_visits_rotate [OF builder_names_distinct builder_names_nonempty
                builder_names_plain _ assms(1)])
       (simp add: list_all_iff)
  then show ?thesis
    using builder_names_distinct by (simp del: rotate_Suc)
qed

text \<open>The theorem on the template, starting after \<open>location.city\<close>.\<close>

theorem ring_coverage_witness:
  "ring_visits vacancyBuilder_fields getVacancyTemplate (JStr ''location.city'') 15
     = [''domain'', ''salary.from'', ''salary.to'', ''experience.min'', ''experience.max'',
        ''responsibilities'', ''skills'', ''secondary_skills'', ''soft_skills'', ''benefits'',
        ''is_remote'', ''title'', ''department'', ''location.type'', ''location.city'']"
proof -
  have k: "3 < length vacancyBuilder_fields"
    by (simp add: vacancyBuilder_fields_def)
  have u: "list_all (\<lambda>f. needs_filling (value_at getVacancyTemplate (name f))) vacancyBuilder_fields"
    by code_simp
  have n: "name (vacancyBuilder_fields ! 3) = ''location.city''"
    by (simp add: vacancyBuilder_fields_def)
  have l: "length vacancyBuilder_fields = 15"
    by (simp add: vacancyBuilder_fields_def)
  have r: "rotate (Suc 3) (map name vacancyBuilder_fields)
     = [''domain'', ''salary.from'', ''salary.to'', ''experience.min'', ''experience.max'',
        ''responsibilities'', ''skills'', ''secondary_skills'', ''soft_skills'', ''benefits'',
        ''is_remote'', ''title'', ''department'', ''location.type'', ''location.city'']"
    by code_simp
  show ?thesis
    using ring_coverage [OF k u] n l r by simp
qed

text \<open>
  C9 as stated fails on a record that is all unfilled in the specification's sense
  but not in the code's: with a title of three spaces in the template, fifteen calls
  starting after \<open>location.city\<close> never return the title and return the domain twice.
\<close>

theorem ring_coverage_counterexample:
  "all_unfilled vacancyBuilder_fields blank_title_template
   \<and> ring_visits vacancyBuilder_fields blank_title_template (JStr ''location.city'') 15
       = [''domain'', ''salary.from'', ''salary.to'', ''experience.min'', ''experience.max'',
          ''responsibilities'', ''skills'', ''secondary_skills'', ''soft_skills'', ''benefits'',
          ''is_remote'', ''department'', ''location.type'', ''location.city'', ''domain'']
   \<and> ''title'' \<notin> set (ring_visits vacancyBuilder_fields blank_title_template
                            (JStr ''location.city'') 15)
   \<and> \<not> distinct (ring_visits vacancyBuilder_fields blank_title_template
                      (JStr ''location.city'') 15)"
  by code_simp

lemma extractAndUpdateFields_Returns:
  assumes "extractAndUpdateFields vacancy message extraction = Returns er"
  shows "try_catch (parse_extraction extraction) (\<lambda>error. Returns (extraction_fallback vacancy))
         = Returns er"
  using assms
  by (cases "interpolate_all [message, message]") (simp_all add: extractAndUpdateFields_def)

text \<open>
  C4, amended.  When the extraction step yields status \<open>CLARIFICATION_NEEDED\<close>, its
  commentary becomes the next message, \<open>isComplete\<close> is false and the turn ends there:
  the answer does not depend on the selector's capabilities, and the last asked field
  stays as it was.  The session's record becomes the \<open>updatedVacancy\<close> of the
  extraction result: the record as it was, with the generic request to rephrase as
  commentary, when the capability's output could not be parsed into the expected
  shape; whatever the capability sent when it asked back itself.
\<close>

theorem clarification_ends_turn:
  assumes "truthy message"
    and "extractAndUpdateFields (s_vacancy session) message extraction = Returns er"
    and "er_status er = JStr ''CLARIFICATION_NEEDED''"
  shows "recruiter_chat session message extraction describeApi questionApi =
           (session\<lparr>conversationHistory := conversationHistory session
                       @ [(''user'', message), (''assistant'', er_commentary er)],
                    s_vacancy := er_updatedVacancy er\<rparr>,
            Returns (Json (sid session) (er_commentary er) False))
       \<and> ((\<exists>e. parse_extraction extraction = Throws e) \<longrightarrow>
             er_updatedVacancy er = s_vacancy session \<and> er_commentary er = JStr rephrase_request)
       \<and> (\<forall>r. parse_extraction extraction = Returns r \<longrightarrow> er = r)"
proof -
  have tc: "try_catch (parse_extraction extraction)
              (\<lambda>error. Returns (extraction_fallback (s_vacancy session))) = Returns er"
    using assms(2) by (rule extractAndUpdateFields_Returns)
  have "recruiter_chat session message extraction describeApi questionApi =
           (session\<lparr>conversationHistory := conversationHistory session
                       @ [(''user'', message), (''assistant'', er_commentary er)],
                    s_vacancy := er_updatedVacancy er\<rparr>,
            Returns (Json (sid session) (er_commentary er) False))"
    using assms by (simp add: recruiter_chat_def Let_def)
  moreover have "(\<exists>e. parse_extraction extraction = Throws e) \<longrightarrow>
             er_updatedVacancy er = s_vacancy session \<and> er_commentary er = JStr rephrase_request"
    using tc by (auto simp: extraction_fallback_def)
  moreover have "\<forall>r. parse_extraction extraction = Returns r \<longrightarrow> er = r"
    using tc by auto
  ultimately show ?thesis by blast
qed

text \<open>The theorem on a fresh session and an output that is no JSON.\<close>

theorem clarification_ends_turn_witness:
  "recruiter_chat clarify_session (JStr ''hm'') Unparsable None None =
     (clarify_session\<lparr>conversationHistory :=
          [(''user'', JStr ''hm''), (''assistant'', JStr rephrase_request)]\<rparr>,
      Returns (Json ''1730000000000'' (JStr rephrase_request) False))"
proof -
  have a: "truthy (JStr ''hm'')" by simp
  have b: "extractAndUpdateFields (s_vacancy clarify_session) (JStr ''hm'') Unparsable
           = Returns (extraction_fallback (s_vacancy clarify_session))"
    by (simp add: extractAndUpdateFields_def parse_extraction_def interpolate_def)
  have c: "er_status (extraction_fallback (s_vacancy clarify_session)) = JStr ''CLARIFICATION_NEEDED''"
    by (simp add: extraction_fallback_def)
  show ?thesis
    using clarification_ends_turn [OF a b c, of None None]
    by (simp add: extraction_fallback_def clarify_session_def)
qed

text \<open>
  C4 as stated fails when the capability itself answers \<open>CLARIFICATION_NEEDED\<close> with a
  changed vacancy: the route stores it.
\<close>

theorem clarification_counterexample:
  "snd (recruiter_chat clarify_session (JStr ''someone good'') clarify_answer None None)
      = Returns (Json ''1730000000000'' (JStr ''Which role do you mean?'') False)
   \<and> s_vacancy (fst (recruiter_chat clarify_session (JStr ''someone good'') clarify_answer None None))
      = JObj [(''title'', JStr ''Chef'')]
   \<and> s_vacancy clarify_session \<noteq> JObj [(''title'', JStr ''Chef'')]"
  by (simp add: recruiter_chat_def clarify_session_def clarify_answer_def extractAndUpdateFields_def
        parse_extraction_def getVacancyTemplate_def Let_def interpolate_def)

text \<open>
  What \<open>isVacancyComplete\<close> computes: every mandatory field holds a truthy value that is
  not an empty array.
\<close>

lemma required_present_truthy:
  "list_all plain_path fs \<Longrightarrow>
   required_present v fs =
     Returns (list_all (\<lambda>f. truthy (value_at v f) \<and> value_at v f \<noteq> JArr []) fs)"
proof (induction fs)
  case Nil
  show ?case by simp
next
  case (Cons f fs)
  have "(case value_at v f of JArr xs \<Rightarrow> length xs = 0 | _ \<Rightarrow> False) = (value_at v f = JArr [])"
    by (cases "value_at v f") simp_all
  with Cons show ?case
    by (simp add: getValueByPath_value_at)
qed

lemma requiredFields_plain: "list_all plain_path requiredFields"
  by code_simp

lemma allFields_plain: "list_all plain_path allFields"
  by code_simp

lemma isVacancyComplete_truthy:
  "isVacancyComplete v =
     Returns (list_all (\<lambda>f. truthy (value_at v f) \<and> value_at v f \<noteq> JArr []) requiredFields)"
  unfolding isVacancyComplete_def by (rule required_present_truthy [OF requiredFields_plain])

text \<open>
  What \<open>getNextMissingField\<close> computes: the first field of its list, always scanned from
  the start, that the loop body reports missing.
\<close>

lemma first_missing_find:
  "list_all plain_path fs \<Longrightarrow>
   first_missing v fs = Returns (List.find (\<lambda>f. field_missing f (value_at v f)) fs)"
  by (induction fs) (simp_all add: getValueByPath_value_at)

lemma getNextMissingField_find:
  "getNextMissingField v = Returns (List.find (\<lambda>f. field_missing f (value_at v f)) allFields)"
  unfolding getNextMissingField_def by (rule first_missing_find [OF allFields_plain])

text \<open>
  C2 on a vacancy with zero years of experience: every mandatory field holds a filled
  value and the selector moves on to the salary, yet \<open>isVacancyComplete\<close> answers
  \<open>false\<close>.
\<close>

theorem isVacancyComplete_zero_experience:
  "isVacancyComplete zero_experience_vacancy = Returns False
   \<and> list_all (\<lambda>f. is_filled (value_at zero_experience_vacancy f)) requiredFields
   \<and> getNextMissingField zero_experience_vacancy = Returns (Some ''salaryExpectations.min'')"
  by code_simp

text \<open>
  C6 on a pending \<open>coreSkills\<close>: the schema types it as an array, as it does
  \<open>secondarySkills\<close>, whose default is the empty array; the default substituted for
  \<open>coreSkills\<close> is the empty string.
\<close>

theorem skip_default_coreSkills:
  "checkForSkipResponse ''no'' skills_pending_vacancy (Some ''skip'')
     = Returns \<lparr>shouldSkip = True, skip_value = JStr [], skip_field = Some ''coreSkills''\<rparr>
   \<and> map_of vacancyFields ''coreSkills'' = Some array_t
   \<and> map_of vacancyFields ''secondarySkills'' = Some array_t
   \<and> skip_default (Some ''secondarySkills'') = JArr []"
  by code_simp

lemma then_do_Returns:
  "then_do m f = Returns y \<Longrightarrow> \<exists>x. m = Returns x \<and> f x = Returns y"
  by (cases m) simp_all

lemma map_of_obj_set:
  "map_of (obj_set kvs k v) k' = (if k' = k then Some v else map_of kvs k')"
  by (induction kvs) auto

lemma own_value_obj_set:
  "own_value (obj_set kvs k v) k' = (if k' = k then v else own_value kvs k')"
  by (simp add: own_value_def map_of_obj_set)

lemma get_prop_obj:
  "k \<notin> set object_proto_names \<Longrightarrow> get_prop (JObj kvs) k = Returns (own_value kvs k)"
  by (simp add: own_value_def not_own_def split: option.splits)

lemma get_prop_own_value:
  "get_prop (JObj kvs') k = get_prop (JObj kvs) k \<Longrightarrow> own_value kvs' k = own_value kvs k"
  by (auto simp: own_value_def not_own_def split: option.splits if_splits)

lemma set_prop_other:
  "set_prop u k v = Returns u' \<Longrightarrow> k' \<noteq> k \<Longrightarrow> get_prop u' k' = get_prop u k'"
proof (cases u)
  case (JObj kvs)
  assume "set_prop u k v = Returns u'" and "k' \<noteq> k"
  with JObj have "u' = u \<or> u' = JObj (obj_set kvs k v)"
    by (cases v) (auto split: if_splits)
  with JObj \<open>k' \<noteq> k\<close> show ?thesis
    by (auto simp: map_of_obj_set)
qed (auto split: if_splits)




text \<open>A guarded assignment: the shape of the steps of the heuristic layer.\<close>

lemma guarded_other:
  assumes "then_do (current_falsy cur g) (\<lambda>unset. if unset then set_prop u k v else rest) = Returns u'"
    and "K \<noteq> k" and "rest = Returns u' \<Longrightarrow> get_prop u' K = get_prop u K"
  shows "get_prop u' K = get_prop u K"
proof -
  from then_do_Returns [OF assms(1)] obtain b where
    b: "(if b then set_prop u k v else rest) = Returns u'" by blast
  show ?thesis
  proof (cases b)
    case True
    with b have "set_prop u k v = Returns u'" by simp
    then show ?thesis using assms(2) by (rule set_prop_other)
  next
    case False
    with b assms(3) show ?thesis by simp
  qed
qed



lemma map_department_cases:
  assumes "map_department u cur = Returns u'"
  obtains (unchanged) "u' = u"
  | (guarded) t where "get_prop u ''title'' = Returns (JStr t)" "developer_title t"
      "then_do (current_falsy cur ''department'') (\<lambda>unset.
          if unset then set_prop u ''department'' (JStr ''IT'') else Returns u) = Returns u'"
proof -
  from then_do_Returns [OF assms [unfolded map_department_def]] obtain title where
    t: "get_prop u ''title'' = Returns title" and
    r: "(if \<not> truthy title then Returns u
         else (case title of
               JStr t \<Rightarrow>
                 if developer_title t
                 then then_do (current_falsy cur ''department'') (\<lambda>unset.
                        if unset then set_prop u ''department'' (JStr ''IT'')
                        else Returns u)
                 else Returns u
             | _ \<Rightarrow> Throws TypeError)) = Returns u'"
    by blast
  show ?thesis
  proof (cases "truthy title")
    case False
    with r have "u' = u" by simp
    then show ?thesis by (rule unchanged)
  next
    case True
    show ?thesis
    proof (cases title)
      case (JStr s)
      show ?thesis
      proof (cases "developer_title s")
        case True
        with r JStr \<open>truthy title\<close> t show ?thesis by (intro guarded [of s]) simp_all
      next
        case False
        with r JStr \<open>truthy title\<close> have "u' = u" by simp
        then show ?thesis by (rule unchanged)
      qed
    qed (use r True in simp_all)
  qed
qed

lemma map_department_other:
  assumes "map_department u cur = Returns u'" and "K \<noteq> ''department''"
  shows "get_prop u' K = get_prop u K"
  using assms(1)
proof (cases rule: map_department_cases)
  case unchanged
  then show ?thesis by simp
next
  case (guarded t)
  from guarded(3) assms(2) show ?thesis by (rule guarded_other) simp
qed



lemma map_salary_other:
  assumes "map_salary u cur sm = Returns u'" and "K \<noteq> ''salaryExpectations''"
  shows "get_prop u' K = get_prop u K"
proof (cases sm)
  case None
  with assms(1) show ?thesis by (simp add: map_salary_def)
next
  case (Some p)
  obtain lo hi where p: "p = (lo, hi)" by (cases p)
  from assms(1) Some p then_do_Returns obtain se where
    "then_do (if nullish se then Returns JUndefined else get_prop se ''min'') (\<lambda>mn.
            if \<not> truthy mn
            then set_prop u ''salaryExpectations''
                   (JObj [(''min'', JNum lo),
                          (''max'', (case hi of None \<Rightarrow> JNull | Some h \<Rightarrow> JNum h)),
                          (''currency'', JStr ''USD'')])
            else Returns u) = Returns u'"
    unfolding map_salary_def by fastforce
  from then_do_Returns [OF this] obtain mn where
    r: "(if \<not> truthy mn
            then set_prop u ''salaryExpectations''
                   (JObj [(''min'', JNum lo),
                          (''max'', (case hi of None \<Rightarrow> JNull | Some h \<Rightarrow> JNum h)),
                          (''currency'', JStr ''USD'')])
            else Returns u) = Returns u'" by blast
  show ?thesis
  proof (cases "truthy mn")
    case True
    with r show ?thesis by simp
  next
    case False
    with r assms(2) show ?thesis by (simp add: set_prop_other)
  qed
qed

lemma map_location_office_other:
  assumes "map_location_office u msg cur = Returns u'" and "K \<noteq> ''locationType''"
  shows "get_prop u' K = get_prop u K"
proof (cases "str_includes msg ''office''")
  case True
  with assms(1) have "set_prop u ''locationType'' (JStr ''on_site'') = Returns u'"
    unfolding map_location_office_def set_on_site_def by simp
  then show ?thesis using assms(2) by (rule set_prop_other)
next
  case False
  show ?thesis
  proof (cases "str_includes msg ''on-site''")
    case True
    with False assms(1) have
      "then_do (current_falsy cur ''locationType'') (\<lambda>unset.
             if unset then set_prop u ''locationType'' (JStr ''on_site'') else Returns u) = Returns u'"
      unfolding map_location_office_def set_on_site_def by simp
    then show ?thesis using assms(2) by (rule guarded_other) simp
  next
    case F2: False
    with False assms(1) show ?thesis by (simp add: map_location_office_def)
  qed
qed

lemma map_location_hybrid_other:
  assumes "map_location_hybrid u msg cur = Returns u'" and "K \<noteq> ''locationType''"
  shows "get_prop u' K = get_prop u K"
proof (cases "str_includes msg ''hybrid''")
  case True
  with assms(1) have
    "then_do (current_falsy cur ''locationType'') (\<lambda>unset.
             if unset then set_prop u ''locationType'' (JStr ''hybrid'')
             else map_location_office u msg cur) = Returns u'"
    by (simp add: map_location_hybrid_def)
  then show ?thesis using assms(2)
    by (rule guarded_other) (rule map_location_office_other [OF _ assms(2)])
next
  case False
  with assms show ?thesis
    by (simp add: map_location_hybrid_def map_location_office_other)
qed

lemma map_location_other:
  assumes "map_location u msg cur = Returns u'" and "K \<noteq> ''locationType''" and "K \<noteq> ''remote''"
  shows "get_prop u' K = get_prop u K"
proof (cases "str_includes msg ''remote''")
  case False
  with assms show ?thesis
    by (simp add: map_location_def map_location_hybrid_other)
next
  case True
  with assms(1) have
    "then_do (current_falsy cur ''locationType'') (\<lambda>unset.
             if unset
             then then_do (set_prop u ''locationType'' (JStr ''remote''))
                    (\<lambda>u. set_prop u ''remote'' (JBool True))
             else map_location_hybrid u msg cur) = Returns u'"
    by (simp add: map_location_def)
  from then_do_Returns [OF this] obtain b where
    b: "(if b
         then then_do (set_prop u ''locationType'' (JStr ''remote''))
                (\<lambda>u. set_prop u ''remote'' (JBool True))
         else map_location_hybrid u msg cur) = Returns u'" by blast
  show ?thesis
  proof (cases b)
    case False
    with b assms(2) show ?thesis by (simp add: map_location_hybrid_other)
  next
    case True
    with b have "then_do (set_prop u ''locationType'' (JStr ''remote''))
                (\<lambda>u. set_prop u ''remote'' (JBool True)) = Returns u'" by simp
    from then_do_Returns [OF this] obtain x where
      x: "set_prop u ''locationType'' (JStr ''remote'') = Returns x"
      and y: "set_prop x ''remote'' (JBool True) = Returns u'" by blast
    have "get_prop u' K = get_prop x K" using y assms(3) by (rule set_prop_other)
    also have "\<dots> = get_prop u K" using x assms(2) by (rule set_prop_other)
    finally show ?thesis .
  qed
qed


lemma map_employment_part_other:
  assumes "map_employment_part u msg cur = Returns u'" and "K \<noteq> ''employmentType''"
  shows "get_prop u' K = get_prop u K"
proof (cases "str_includes msg ''part'' \<and> str_includes msg ''time''")
  case True
  with assms(1) have
    "then_do (current_falsy cur ''employmentType'') (\<lambda>unset.
             if unset then set_prop u ''employmentType'' (JStr ''part-time'')
             else Returns u) = Returns u'"
    by (simp add: map_employment_part_def)
  then show ?thesis using assms(2) by (rule guarded_other) simp
next
  case False
  with assms(1) show ?thesis by (simp add: map_employment_part_def)
qed

lemma map_employment_other:
  assumes "map_employment u msg cur = Returns u'" and "K \<noteq> ''employmentType''"
  shows "get_prop u' K = get_prop u K"
proof (cases "str_includes msg ''full'' \<and> str_includes msg ''time''")
  case True
  with assms(1) have
    "then_do (current_falsy cur ''employmentType'') (\<lambda>unset.
             if unset then set_prop u ''employmentType'' (JStr ''full-time'')
             else map_employment_part u msg cur) = Returns u'"
    by (simp add: map_employment_def)
  then show ?thesis using assms(2)
    by (rule guarded_other) (rule map_employment_part_other [OF _ assms(2)])
next
  case False
  with assms show ?thesis by (simp add: map_employment_def map_employment_part_other)
qed

lemma map_experience_other:
  assumes "map_experience u cur em = Returns u'" and "K \<noteq> ''overallExperiencesFrom''"
  shows "get_prop u' K = get_prop u K"
proof (cases em)
  case None
  with assms(1) show ?thesis by (simp add: map_experience_def)
next
  case (Some years)
  with assms(1) have
    "then_do (current_falsy cur ''overallExperiencesFrom'') (\<lambda>unset.
            if unset then set_prop u ''overallExperiencesFrom'' (JNum years)
            else Returns u) = Returns u'"
    by (simp add: map_experience_def)
  then show ?thesis using assms(2) by (rule guarded_other) simp
qed



lemma map_skills_cases:
  assumes "map_skills u msg cur = Returns u'"
  obtains (unchanged) "u' = u"
  | (fired) "\<not> has_skills cur" "foundSkills msg \<noteq> []"
      "set_prop u ''coreSkills'' (JArr (map JStr (foundSkills msg))) = Returns u'"
proof -
  from then_do_Returns [OF assms [unfolded map_skills_def]] obtain cs where
    cs: "get_prop cur ''coreSkills'' = Returns cs" and
    r: "then_do (if \<not> truthy cs then Returns True
              else then_do (get_prop cs ''length'') (\<lambda>n. Returns (n = JNum 0))) (\<lambda>empty.
       if empty \<and> foundSkills msg \<noteq> []
       then set_prop u ''coreSkills'' (JArr (map JStr (foundSkills msg)))
       else Returns u) = Returns u'"
    by blast
  from then_do_Returns [OF r] obtain empty where
    e: "(if \<not> truthy cs then Returns True
              else then_do (get_prop cs ''length'') (\<lambda>n. Returns (n = JNum 0))) = Returns empty"
    and s: "(if empty \<and> foundSkills msg \<noteq> []
       then set_prop u ''coreSkills'' (JArr (map JStr (foundSkills msg)))
       else Returns u) = Returns u'"
    by blast
  have he: "empty \<Longrightarrow> \<not> has_skills cur"
  proof
    assume "empty" and "has_skills cur"
    with cs have t: "truthy cs" and l: "get_prop cs ''length'' \<noteq> Returns (JNum 0)"
      by (simp_all add: has_skills_def)
    from e t have "then_do (get_prop cs ''length'') (\<lambda>n. Returns (n = JNum 0)) = Returns empty"
      by simp
    from then_do_Returns [OF this] \<open>empty\<close> l show False by auto
  qed
  show ?thesis
  proof (cases "empty \<and> foundSkills msg \<noteq> []")
    case True
    with s he show ?thesis by (intro fired) simp_all
  next
    case False
    with s have "u' = u" by auto
    then show ?thesis by (rule unchanged)
  qed
qed

lemma map_skills_other:
  assumes "map_skills u msg cur = Returns u'" and "K \<noteq> ''coreSkills''"
  shows "get_prop u' K = get_prop u K"
  using assms(1)
proof (cases rule: map_skills_cases)
  case unchanged
  then show ?thesis by simp
next
  case fired
  from fired(3) assms(2) show ?thesis by (rule set_prop_other)
qed


lemma applySmartMappings_steps:
  assumes "applySmartMappings u msg cur m = Returns u'"
  obtains u1 u2 u3 u4 u5 where
    "map_department u cur = Returns u1"
    "map_salary u1 cur (salaryMatch m) = Returns u2"
    "map_location u2 (toLowerCase msg) cur = Returns u3"
    "map_employment u3 (toLowerCase msg) cur = Returns u4"
    "map_experience u4 cur (expMatch m) = Returns u5"
    "map_skills u5 msg cur = Returns u'"
proof -
  from then_do_Returns [OF assms [unfolded applySmartMappings_def Let_def]] obtain u1 where
    s1: "map_department u cur = Returns u1" and
    r1: "then_do (map_salary u1 cur (salaryMatch m)) (\<lambda>u2.
      then_do (map_location u2 (toLowerCase msg) cur) (\<lambda>u3.
      then_do (map_employment u3 (toLowerCase msg) cur) (\<lambda>u4.
      then_do (map_experience u4 cur (expMatch m)) (\<lambda>u5.
      map_skills u5 msg cur)))) = Returns u'" by blast
  from then_do_Returns [OF r1] obtain u2 where
    s2: "map_salary u1 cur (salaryMatch m) = Returns u2" and
    r2: "then_do (map_location u2 (toLowerCase msg) cur) (\<lambda>u3.
      then_do (map_employment u3 (toLowerCase msg) cur) (\<lambda>u4.
      then_do (map_experience u4 cur (expMatch m)) (\<lambda>u5.
      map_skills u5 msg cur))) = Returns u'" by blast
  from then_do_Returns [OF r2] obtain u3 where
    s3: "map_location u2 (toLowerCase msg) cur = Returns u3" and
    r3: "then_do (map_employment u3 (toLowerCase msg) cur) (\<lambda>u4.
      then_do (map_experience u4 cur (expMatch m)) (\<lambda>u5.
      map_skills u5 msg cur)) = Returns u'" by blast
  from then_do_Returns [OF r3] obtain u4 where
    s4: "map_employment u3 (toLowerCase msg) cur = Returns u4" and
    r4: "then_do (map_experience u4 cur (expMatch m)) (\<lambda>u5.
      map_skills u5 msg cur) = Returns u'" by blast
  from then_do_Returns [OF r4] obtain u5 where
    s5: "map_experience u4 cur (expMatch m) = Returns u5" and
    s6: "map_skills u5 msg cur = Returns u'" by blast
  from s1 s2 s3 s4 s5 s6 show ?thesis by (rule that)
qed





text \<open>
  The word \<open>office\<close> sets the location type whatever the record holds: the guard of
  that branch only binds to \<open>on-site\<close>.
\<close>

lemma office_keyword_unguarded:
  "applySmartMappings (JObj []) ''we also have an office'' (JObj [(''locationType'', JStr ''remote'')])
      no_matches = Returns (JObj [(''locationType'', JStr ''on_site'')])"
  by code_simp

lemma current_falsy_obj:
  "k \<notin> set object_proto_names \<Longrightarrow>
   current_falsy (JObj R) k = Returns (\<not> truthy (own_value R k))"
  by (simp add: current_falsy_def get_prop_obj del: get_prop.simps)

lemma set_prop_obj:
  "k \<noteq> ''__proto__'' \<Longrightarrow> set_prop (JObj kvs) k v = Returns (JObj (obj_set kvs k v))"
  by simp

lemma heuristic_keys_own: "k \<in> set heuristic_keys \<Longrightarrow> k \<notin> set object_proto_names"
  by (auto simp: heuristic_keys_def object_proto_names_def)

lemma map_department_obj:
  "(\<exists>kvs'. map_department (JObj kvs) (JObj R) = Returns (JObj kvs'))
   \<or> map_department (JObj kvs) (JObj R) = Throws TypeError"
proof -
  have t: "get_prop (JObj kvs) ''title'' = Returns (own_value kvs ''title'')"
    by (rule get_prop_obj) (simp add: object_proto_names_def)
  have c: "current_falsy (JObj R) ''department'' = Returns (\<not> truthy (own_value R ''department''))"
    by (rule current_falsy_obj) (simp add: object_proto_names_def)
  show ?thesis
    unfolding map_department_def t c
    by (cases "own_value kvs ''title''") simp_all
qed

lemma map_salary_obj:
  "\<exists>kvs'. map_salary (JObj kvs) (JObj R) sm = Returns (JObj kvs')"
proof (cases sm)
  case None
  then show ?thesis by (simp add: map_salary_def)
next
  case (Some p)
  obtain lo hi where p: "p = (lo, hi)" by (cases p)
  have s: "get_prop (JObj R) ''salaryExpectations'' = Returns (own_value R ''salaryExpectations'')"
    by (rule get_prop_obj) (simp add: object_proto_names_def)
  have "plain_key ''min''" by code_simp
  then have "\<exists>mn. (if nullish (own_value R ''salaryExpectations'') then Returns JUndefined
                   else get_prop (own_value R ''salaryExpectations'') ''min'') = Returns mn"
    using get_prop_present by auto
  then obtain mn where mn: "(if nullish (own_value R ''salaryExpectations'') then Returns JUndefined
                   else get_prop (own_value R ''salaryExpectations'') ''min'') = Returns mn"
    by blast
  show ?thesis
    unfolding map_salary_def Some p s using mn by simp
qed

lemma map_location_office_obj:
  "\<exists>kvs'. map_location_office (JObj kvs) msg (JObj R) = Returns (JObj kvs')"
proof -
  have c: "current_falsy (JObj R) ''locationType'' = Returns (\<not> truthy (own_value R ''locationType''))"
    by (rule current_falsy_obj) (simp add: object_proto_names_def)
  show ?thesis
    unfolding map_location_office_def set_on_site_def c by simp
qed

lemma map_location_hybrid_obj:
  "\<exists>kvs'. map_location_hybrid (JObj kvs) msg (JObj R) = Returns (JObj kvs')"
proof -
  have c: "current_falsy (JObj R) ''locationType'' = Returns (\<not> truthy (own_value R ''locationType''))"
    by (rule current_falsy_obj) (simp add: object_proto_names_def)
  show ?thesis
    unfolding map_location_hybrid_def c using map_location_office_obj [of kvs msg R] by simp
qed

lemma map_location_obj:
  "\<exists>kvs'. map_location (JObj kvs) msg (JObj R) = Returns (JObj kvs')"
proof -
  have c: "current_falsy (JObj R) ''locationType'' = Returns (\<not> truthy (own_value R ''locationType''))"
    by (rule current_falsy_obj) (simp add: object_proto_names_def)
  show ?thesis
    unfolding map_location_def c using map_location_hybrid_obj [of kvs msg R] by simp
qed

lemma map_employment_part_obj:
  "\<exists>kvs'. map_employment_part (JObj kvs) msg (JObj R) = Returns (JObj kvs')"
proof -
  have c: "current_falsy (JObj R) ''employmentType'' = Returns (\<not> truthy (own_value R ''employmentType''))"
    by (rule current_falsy_obj) (simp add: object_proto_names_def)
  show ?thesis
    unfolding map_employment_part_def c by simp
qed

lemma map_employment_obj:
  "\<exists>kvs'. map_employment (JObj kvs) msg (JObj R) = Returns (JObj kvs')"
proof -
  have c: "current_falsy (JObj R) ''employmentType'' = Returns (\<not> truthy (own_value R ''employmentType''))"
    by (rule current_falsy_obj) (simp add: object_proto_names_def)
  show ?thesis
    unfolding map_employment_def c using map_employment_part_obj [of kvs msg R] by simp
qed

lemma map_experience_obj:
  "\<exists>kvs'. map_experience (JObj kvs) (JObj R) em = Returns (JObj kvs')"
proof -
  have c: "current_falsy (JObj R) ''overallExperiencesFrom''
           = Returns (\<not> truthy (own_value R ''overallExperiencesFrom''))"
    by (rule current_falsy_obj) (simp add: object_proto_names_def)
  show ?thesis
    unfolding map_experience_def c by (cases em) simp_all
qed

lemma map_skills_obj:
  "\<exists>kvs'. map_skills (JObj kvs) msg (JObj R) = Returns (JObj kvs')"
proof -
  have s: "get_prop (JObj R) ''coreSkills'' = Returns (own_value R ''coreSkills'')"
    by (rule get_prop_obj) (simp add: object_proto_names_def)
  have "plain_key ''length''" by code_simp
  then have "\<exists>e. (if \<not> truthy (own_value R ''coreSkills'') then Returns True
              else then_do (get_prop (own_value R ''coreSkills'') ''length'')
                     (\<lambda>n. Returns (n = JNum 0))) = Returns e"
    using get_prop_plain [of "''length''" "own_value R ''coreSkills''"] by auto
  then obtain e where e: "(if \<not> truthy (own_value R ''coreSkills'') then Returns True
              else then_do (get_prop (own_value R ''coreSkills'') ''length'')
                     (\<lambda>n. Returns (n = JNum 0))) = Returns e"
    by blast
  show ?thesis
    unfolding map_skills_def s using e by simp
qed

lemma applySmartMappings_obj:
  "(\<exists>E'. applySmartMappings (JObj E) msg (JObj R) m = Returns (JObj E'))
   \<or> applySmartMappings (JObj E) msg (JObj R) m = Throws TypeError"
proof -
  from map_department_obj [of E R] show ?thesis
  proof
    assume "map_department (JObj E) (JObj R) = Throws TypeError"
    then show ?thesis by (simp add: applySmartMappings_def)
  next
    assume "\<exists>kvs'. map_department (JObj E) (JObj R) = Returns (JObj kvs')"
    then obtain k1 where s1: "map_department (JObj E) (JObj R) = Returns (JObj k1)" by blast
    obtain k2 where s2: "map_salary (JObj k1) (JObj R) (salaryMatch m) = Returns (JObj k2)"
      using map_salary_obj by blast
    obtain k3 where s3: "map_location (JObj k2) (toLowerCase msg) (JObj R) = Returns (JObj k3)"
      using map_location_obj by blast
    obtain k4 where s4: "map_employment (JObj k3) (toLowerCase msg) (JObj R) = Returns (JObj k4)"
      using map_employment_obj by blast
    obtain k5 where s5: "map_experience (JObj k4) (JObj R) (expMatch m) = Returns (JObj k5)"
      using map_experience_obj by blast
    obtain k6 where s6: "map_skills (JObj k5) msg (JObj R) = Returns (JObj k6)"
      using map_skills_obj by blast
    have "applySmartMappings (JObj E) msg (JObj R) m = Returns (JObj k6)"
      by (simp add: applySmartMappings_def s1 s2 s3 s4 s5 s6)
    then show ?thesis by blast
  qed
qed

lemma applySmartMappings_frame:
  assumes run: "applySmartMappings u msg cur m = Returns u'" and "K \<notin> set heuristic_keys"
  shows "get_prop u' K = get_prop u K"
proof -
  from run obtain u1 u2 u3 u4 u5 where
    s1: "map_department u cur = Returns u1" and
    s2: "map_salary u1 cur (salaryMatch m) = Returns u2" and
    s3: "map_location u2 (toLowerCase msg) cur = Returns u3" and
    s4: "map_employment u3 (toLowerCase msg) cur = Returns u4" and
    s5: "map_experience u4 cur (expMatch m) = Returns u5" and
    s6: "map_skills u5 msg cur = Returns u'"
    by (rule applySmartMappings_steps)
  from assms(2) have k: "K \<noteq> ''department''" "K \<noteq> ''salaryExpectations''"
    "K \<noteq> ''locationType''" "K \<noteq> ''remote''" "K \<noteq> ''employmentType''"
    "K \<noteq> ''overallExperiencesFrom''" "K \<noteq> ''coreSkills''"
    by (auto simp: heuristic_keys_def)
  have "get_prop u' K = get_prop u5 K" using s6 k(7) by (rule map_skills_other)
  also have "\<dots> = get_prop u4 K" using s5 k(6) by (rule map_experience_other)
  also have "\<dots> = get_prop u3 K" using s4 k(5) by (rule map_employment_other)
  also have "\<dots> = get_prop u2 K" using s3 k(3) k(4) by (rule map_location_other)
  also have "\<dots> = get_prop u1 K" using s2 k(2) by (rule map_salary_other)
  also have "\<dots> = get_prop u K" using s1 k(1) by (rule map_department_other)
  finally show ?thesis .
qed

lemma get_prop_own:
  "k \<in> fst ` set kvs \<Longrightarrow> get_prop (JObj kvs) k = Returns (own_value kvs k)"
proof -
  assume "k \<in> fst ` set kvs"
  then obtain v where "map_of kvs k = Some v"
    by (metis map_of_eq_None_iff not_Some_eq)
  then show ?thesis by (simp add: own_value_def)
qed

lemma merge_keys_obj:
  assumes "nullish (own_value E ''__proto__'')" and "set keys \<subseteq> fst ` set E"
  shows "\<exists>M. merge_keys (JObj E) keys (JObj m) = Returns (JObj M) \<and>
     (\<forall>k. own_value M k =
        (if k \<in> set keys \<and> \<not> nullish (own_value E k) then own_value E k
         else own_value m k))"
  using assms(2)
proof (induction keys arbitrary: m)
  case Nil
  show ?case by simp
next
  case (Cons key keys)
  then have key: "key \<in> fst ` set E" and keys: "set keys \<subseteq> fst ` set E" by simp_all
  have g: "get_prop (JObj E) key = Returns (own_value E key)"
    using key by (rule get_prop_own)
  show ?case
  proof (cases "nullish (own_value E key)")
    case True
    then have "merge_keys (JObj E) (key # keys) (JObj m) = merge_keys (JObj E) keys (JObj m)"
      unfolding merge_keys.simps g by (auto simp: nullish_def)
    with Cons.IH [OF keys, of m] True show ?thesis by auto
  next
    case False
    with assms(1) have "key \<noteq> ''__proto__''" by auto
    then have s: "set_prop (JObj m) key (own_value E key)
                  = Returns (JObj (obj_set m key (own_value E key)))"
      by (rule set_prop_obj)
    have "merge_keys (JObj E) (key # keys) (JObj m)
               = merge_keys (JObj E) keys (JObj (obj_set m key (own_value E key)))"
      using False by (simp add: g s nullish_def del: get_prop.simps set_prop.simps)
    with Cons.IH [OF keys, of "obj_set m key (own_value E key)"] False show ?thesis
      by (auto simp: own_value_obj_set)
  qed
qed

lemma own_value_absent: "k \<notin> fst ` set kvs \<Longrightarrow> own_value kvs k = JUndefined"
proof -
  assume "k \<notin> fst ` set kvs"
  then have "map_of kvs k = None"
    by (simp add: map_of_eq_None_iff)
  then show ?thesis
    by (simp add: own_value_def)
qed

lemma mergedVacancy_obj:
  assumes "nullish (own_value E ''__proto__'')"
  shows "\<exists>M. mergedVacancy (JObj R) (JObj E) = Returns (JObj M) \<and>
     (\<forall>k. own_value M k =
        (if nullish (own_value E k) then own_value R k else own_value E k))"
proof -
  obtain M where m: "merge_keys (JObj E) (map fst E) (JObj R) = Returns (JObj M)"
    and v: "\<And>k. own_value M k =
        (if k \<in> set (map fst E) \<and> \<not> nullish (own_value E k) then own_value E k
         else own_value R k)"
    using merge_keys_obj [OF assms, of "map fst E" R] by auto
  have v': "own_value M k =
        (if nullish (own_value E k) then own_value R k else own_value E k)" for k
  proof (cases "k \<in> fst ` set E")
    case True
    then show ?thesis using v [of k] by simp
  next
    case False
    then have "nullish (own_value E k)"
      using own_value_absent [OF False] by (simp add: nullish_def)
    then show ?thesis using v [of k] by simp
  qed
  have "mergedVacancy (JObj R) (JObj E) = Returns (JObj M)"
    using m by (simp add: mergedVacancy_def object_keys_def object_entries_def nullish_def)
  then show ?thesis
    using v' by auto
qed

lemma analyzeMessage_no_skip:
  assumes "checkForSkipResponse userMessage cur skipApi = Returns sk" and "\<not> shouldSkip sk"
  shows "analyzeMessage userMessage cur skipApi (Parsed u) m =
     try_catch
       (try_catch
          (then_do (applySmartMappings u userMessage cur m)
             (\<lambda>u'. then_do (mergedVacancy cur u') (\<lambda>merged.
                Returns \<lparr>a_success = True, a_error = None, a_updatedVacancy = merged\<rparr>)))
          (\<lambda>parseError.
             Returns \<lparr>a_success = False, a_error = Some ''Data processing error'',
                      a_updatedVacancy = cur\<rparr>))
       (\<lambda>error. Returns \<lparr>a_success = False, a_error = Some ''AI analysis error'',
                         a_updatedVacancy = cur\<rparr>)"
  using assms by (simp add: analyzeMessage_def)

text \<open>
  C1, amended.  With no skip decision, for a record and an extraction result that are
  objects, the extraction holding nothing under the name \<open>__proto__\<close>: the analysis
  returns, and when it succeeds the merged record holds at every top-level key the
  value of the extraction as the heuristic layer left it when that is neither \<open>null\<close>
  nor \<open>undefined\<close>, and the record's value otherwise.  The heuristic layer leaves the
  extraction as it was outside the seven keys it assigns.  So \<open>null\<close> and \<open>undefined\<close>
  never erase existing data, and a top-level field that was filled is filled after
  the merge whenever the value to merge is \<open>null\<close>, \<open>undefined\<close> or itself filled.
  When the analysis fails the record is the one it was.
\<close>

theorem merge_after_heuristics:
  assumes "checkForSkipResponse userMessage (JObj R) skipApi = Returns sk"
    and "\<not> shouldSkip sk"
    and "nullish (own_value E ''__proto__'')"
  shows "\<exists>a. analyzeMessage userMessage (JObj R) skipApi (Parsed (JObj E)) m = Returns a \<and>
     (if a_success a
      then \<exists>M E'. a_updatedVacancy a = JObj M
             \<and> applySmartMappings (JObj E) userMessage (JObj R) m = Returns (JObj E')
             \<and> (\<forall>k. k \<notin> set heuristic_keys \<longrightarrow> own_value E' k = own_value E k)
             \<and> (\<forall>k. own_value M k =
                    (if nullish (own_value E' k) then own_value R k else own_value E' k))
             \<and> (\<forall>k. is_filled (own_value R k)
                     \<and> (nullish (own_value E' k) \<or> is_filled (own_value E' k))
                    \<longrightarrow> is_filled (own_value M k))
      else a_updatedVacancy a = JObj R)"
proof -
  note run = analyzeMessage_no_skip [OF assms(1,2), of "JObj E" m]
  from applySmartMappings_obj [of E userMessage R m] show ?thesis
  proof
    assume "applySmartMappings (JObj E) userMessage (JObj R) m = Throws TypeError"
    then have "analyzeMessage userMessage (JObj R) skipApi (Parsed (JObj E)) m
               = Returns \<lparr>a_success = False, a_error = Some ''Data processing error'',
                          a_updatedVacancy = JObj R\<rparr>"
      unfolding run by simp
    then show ?thesis by simp
  next
    assume "\<exists>E'. applySmartMappings (JObj E) userMessage (JObj R) m = Returns (JObj E')"
    then obtain E' where h: "applySmartMappings (JObj E) userMessage (JObj R) m = Returns (JObj E')"
      by blast
    have frame: "own_value E' k = own_value E k" if "k \<notin> set heuristic_keys" for k
      using applySmartMappings_frame [OF h that] by (rule get_prop_own_value)
    have "''__proto__'' \<notin> set heuristic_keys"
      by (simp add: heuristic_keys_def)
    then have "nullish (own_value E' ''__proto__'')"
      using frame assms(3) by simp
    from mergedVacancy_obj [OF this, of R] obtain M where
      mv: "mergedVacancy (JObj R) (JObj E') = Returns (JObj M)" and
      eq: "\<And>k. own_value M k =
             (if nullish (own_value E' k) then own_value R k else own_value E' k)"
      by auto
    have res: "analyzeMessage userMessage (JObj R) skipApi (Parsed (JObj E)) m
               = Returns \<lparr>a_success = True, a_error = None, a_updatedVacancy = JObj M\<rparr>"
      unfolding run by (simp add: h mv)
    have filled: "is_filled (own_value M k)"
      if "is_filled (own_value R k) \<and> (nullish (own_value E' k) \<or> is_filled (own_value E' k))"
      for k
      using that eq [of k] by auto
    have "\<exists>M' E'. JObj M = JObj M'
             \<and> applySmartMappings (JObj E) userMessage (JObj R) m = Returns (JObj E')
             \<and> (\<forall>k. k \<notin> set heuristic_keys \<longrightarrow> own_value E' k = own_value E k)
             \<and> (\<forall>k. own_value M' k =
                    (if nullish (own_value E' k) then own_value R k else own_value E' k))
             \<and> (\<forall>k. is_filled (own_value R k)
                     \<and> (nullish (own_value E' k) \<or> is_filled (own_value E' k))
                    \<longrightarrow> is_filled (own_value M' k))"
      using h frame eq filled by blast
    then show ?thesis
      using res by (simp split del: if_split)
  qed
qed

text \<open>
  The theorem on a record with a title and an extraction whose title is \<open>null\<close>: the
  title stays, and stays filled; the department is taken from the extraction.
\<close>

theorem merge_after_heuristics_witness:
  "\<exists>M. analyzeMessage ''ok'' react_vacancy (Some ''fill'')
          (Parsed (JObj [(''title'', JNull), (''department'', JStr ''Design'')])) no_matches
        = Returns \<lparr>a_success = True, a_error = None, a_updatedVacancy = JObj M\<rparr>
      \<and> own_value M ''title'' = JStr ''Designer'' \<and> is_filled (own_value M ''title'')
      \<and> own_value M ''department'' = JStr ''Design''"
proof -
  let ?R = "[(''title'', JStr ''Designer''), (''coreSkills'', JArr [JStr ''React''])]"
  let ?E = "[(''title'', JNull), (''department'', JStr ''Design'')]"
  have sk: "checkForSkipResponse ''ok'' (JObj ?R) (Some ''fill'') = Returns no_skip"
    by code_simp
  have ns: "\<not> shouldSkip no_skip"
    by (simp add: no_skip_def)
  have np: "nullish (own_value ?E ''__proto__'')"
    by (simp add: own_value_def nullish_def)
  have run: "analyzeMessage ''ok'' (JObj ?R) (Some ''fill'') (Parsed (JObj ?E)) no_matches
             = Returns \<lparr>a_success = True, a_error = None,
                 a_updatedVacancy = JObj [(''title'', JStr ''Designer''),
                   (''coreSkills'', JArr [JStr ''React'']), (''department'', JStr ''Design'')]\<rparr>"
    by code_simp
  have hm: "applySmartMappings (JObj ?E) ''ok'' (JObj ?R) no_matches = Returns (JObj ?E)"
    by code_simp
  from merge_after_heuristics [OF sk ns np, of no_matches] run hm
  obtain M where
    m: "JObj [(''title'', JStr ''Designer''), (''coreSkills'', JArr [JStr ''React'']),
              (''department'', JStr ''Design'')] = JObj M" and
    eq: "\<forall>k. own_value M k = (if nullish (own_value ?E k) then own_value ?R k else own_value ?E k)"
    and fl: "\<forall>k. is_filled (own_value ?R k)
                  \<and> (nullish (own_value ?E k) \<or> is_filled (own_value ?E k))
                 \<longrightarrow> is_filled (own_value M k)"
    by auto
  have "is_filled (own_value ?R ''title'')" "nullish (own_value ?E ''title'')"
    by (simp_all add: own_value_def is_filled_def nullish_def)
  with fl have "is_filled (own_value M ''title'')" by blast
  moreover from eq have "own_value M ''title'' = JStr ''Designer''"
    by (simp add: own_value_def nullish_def)
  moreover from eq have "own_value M ''department'' = JStr ''Design''"
    by (simp add: own_value_def nullish_def)
  ultimately show ?thesis
    using run m by (simp add: react_vacancy_def)
qed

text \<open>
  C1 as stated fails when the extraction holds an empty array: the skill list, filled
  before, is empty after the merge.
\<close>

theorem merge_monotonicity_counterexample:
  "analyzeMessage ''ok'' react_vacancy (Some ''fill'') empty_skills_reply no_matches
     = Returns \<lparr>a_success = True, a_error = None,
                a_updatedVacancy = JObj [(''title'', JStr ''Designer''), (''coreSkills'', JArr [])]\<rparr>
   \<and> is_filled (value_at react_vacancy ''coreSkills'')
   \<and> \<not> is_filled (value_at (JObj [(''title'', JStr ''Designer''), (''coreSkills'', JArr [])])
                     ''coreSkills'')"
  by code_simp

text \<open>
  C5 on a record whose salary group holds a text: the skip decision says skip and
  names \<open>salaryExpectations.min\<close> with the default \<open>null\<close>, the assignment of the child
  on the text throws in the strict code of the class, and the analysis fails with
  the record as it was, in which the target still reads \<open>undefined\<close>.  The record is
  the one the merge gives when the capability reports the salary as a text.
\<close>

theorem skip_on_text_group:
  "analyzeMessage ''salary is negotiable'' (JObj salary_pending_vacancy) (Some ''fill'')
       negotiable_reply no_matches
     = Returns \<lparr>a_success = True, a_error = None, a_updatedVacancy = negotiable_salary_vacancy\<rparr>
   \<and> checkForSkipResponse ''skip it'' negotiable_salary_vacancy (Some ''skip'')
     = Returns \<lparr>shouldSkip = True, skip_value = JNull,
                skip_field = Some ''salaryExpectations.min''\<rparr>
   \<and> analyzeMessage ''skip it'' negotiable_salary_vacancy (Some ''skip'') Unparsable no_matches
     = Returns \<lparr>a_success = False, a_error = Some ''AI analysis error'',
                a_updatedVacancy = negotiable_salary_vacancy\<rparr>
   \<and> value_at negotiable_salary_vacancy ''salaryExpectations.min'' = JUndefined"
  by code_simp

lemma sendToWebhook_fails:
  assumes "\<not> nullish vacancy"
    and "sink = FetchFailed \<or> (\<exists>code body. sink = HttpAnswer False code body)
         \<or> (\<exists>code. sink = HttpAnswer True code None)"
  shows "\<exists>e. sendToWebhook vacancy d sink = Throws e"
proof -
  have "plain_key ''title''"
    by code_simp
  then obtain t where "get_prop vacancy ''title'' = Returns t"
    using assms(1) get_prop_present by blast
  with assms(2) show ?thesis
    by (auto simp: sendToWebhook_def)
qed

lemma finish_turn_sink_fails:
  assumes "generateJobDescription (cs_vacancy s) generationApi = Returns d"
    and "sendToWebhook (cs_vacancy s) d sink = Throws e"
  shows "finish_turn s r generationApi sink =
     Returns
       (s\<lparr>cs_history := cs_history s
             @ [(''assistant'', ar_message r @ [CHR 0x0A, CHR 0x0A]
                   @ ''**Generated Job Description:**'' @ [CHR 0x0A, CHR 0x0A]
                   @ d @ webhook_failed_note)],
          cs_status := ''completed'', cs_webhookResponse := JNull,
          cs_webhookSuccess := Some False\<rparr>,
        Ok \<lparr>cb_sessionId = cs_id s,
            cb_message = ar_message r @ [CHR 0x0A, CHR 0x0A]
                   @ ''**Generated Job Description:**'' @ [CHR 0x0A, CHR 0x0A]
                   @ d @ webhook_failed_note,
            cb_isComplete = True, cb_vacancy = cs_vacancy s,
            cb_jobDescription = Some d, cb_webhookSuccess = Some False,
            cb_webhookResponse = Some JNull, cb_completionPercentage = 100\<rparr>)"
  using assms by (simp add: finish_turn_def Let_def)

text \<open>
  C8.  On a turn that is complete and whose description was generated, a throwing
  webhook sink does not fail the turn: the route answers with the generated text,
  \<open>isComplete = true\<close> and \<open>webhookSuccess = false\<close>, and stores the flag in the
  session; nothing is rethrown.
\<close>

theorem webhook_failure_is_a_flag:
  assumes "\<not> (cs_history session = [] \<and> message = [])"
    and "analyze_turn session message skipApi extraction m = Returns s"
    and "generateResponse message (cs_vacancy s) intentApi questionApi = Returns r"
    and "ar_isComplete r"
    and "generateJobDescription (cs_vacancy s) generationApi = Returns d"
    and "sendToWebhook (cs_vacancy s) d sink = Throws e"
  shows "chat_route session message skipApi extraction m intentApi questionApi generationApi sink =
     Returns
       (s\<lparr>cs_history := cs_history s
             @ [(''assistant'', ar_message r @ [CHR 0x0A, CHR 0x0A]
                   @ ''**Generated Job Description:**'' @ [CHR 0x0A, CHR 0x0A]
                   @ d @ webhook_failed_note)],
          cs_status := ''completed'', cs_webhookResponse := JNull,
          cs_webhookSuccess := Some False\<rparr>,
        Ok \<lparr>cb_sessionId = cs_id s,
            cb_message = ar_message r @ [CHR 0x0A, CHR 0x0A]
                   @ ''**Generated Job Description:**'' @ [CHR 0x0A, CHR 0x0A]
                   @ d @ webhook_failed_note,
            cb_isComplete = True, cb_vacancy = cs_vacancy s,
            cb_jobDescription = Some d, cb_webhookSuccess = Some False,
            cb_webhookResponse = Some JNull, cb_completionPercentage = 100\<rparr>)"
  using assms(1,2,3,4) finish_turn_sink_fails [OF assms(5,6)]
  by (simp add: chat_route_def)

text \<open>The theorem on a complete record and a sink that rejects the request.\<close>

theorem webhook_failure_is_a_flag_witness:
  "(case chat_route complete_session ''go ahead'' None Unparsable no_matches None None
           (Some ''# Frontend Developer'') FetchFailed of
      Returns (s, Ok body) \<Rightarrow>
        cb_isComplete body \<and> cb_webhookSuccess body = Some False
        \<and> cb_jobDescription body = Some ''# Frontend Developer''
        \<and> cs_webhookSuccess s = Some False
    | _ \<Rightarrow> False)"
proof -
  have a: "\<not> (cs_history complete_session = [] \<and> ''go ahead'' = [])"
    by simp
  have b: "analyze_turn complete_session ''go ahead'' None Unparsable no_matches
           = Returns (recorded complete_session ''go ahead'')"
    by code_simp
  have v: "cs_vacancy (recorded complete_session ''go ahead'') = complete_vacancy"
    by (simp add: recorded_def complete_session_def)
  have c: "generateResponse ''go ahead'' (cs_vacancy (recorded complete_session ''go ahead'')) None None
           = Returns \<lparr>ar_message = all_collected_message ''Frontend Developer'',
                      ar_isComplete = True, ar_completionPercentage = 100\<rparr>"
    unfolding v by code_simp
  have d: "ar_isComplete \<lparr>ar_message = all_collected_message ''Frontend Developer'',
                      ar_isComplete = True, ar_completionPercentage = 100\<rparr>"
    by simp
  have g: "generateJobDescription (cs_vacancy (recorded complete_session ''go ahead''))
             (Some ''# Frontend Developer'') = Returns ''# Frontend Developer''"
    unfolding v by code_simp
  have w: "sendToWebhook (cs_vacancy (recorded complete_session ''go ahead'')) ''# Frontend Developer''
             FetchFailed = Throws (Error ''fetch failed'')"
    unfolding v by code_simp
  show ?thesis
    using webhook_failure_is_a_flag [OF a b c d g w] by simp
qed

end
